theory Spec2Isabelle
  imports Complex_Main
begin

section \<open>Data model\<close>

text \<open>
  The repository holds two variants of the game script: \<^verbatim>\<open>src/game.js\<close> and
  \<^verbatim>\<open>src/unnamed/part_000\<close>. The second one adds the side barriers, the
  \<^verbatim>\<open>LOCK_LEVEL\<close> switch, the asynchronous tower loader and the "Continue" button
  logic. The functions \<^verbatim>\<open>update\<close>, \<^verbatim>\<open>endGame\<close> and
  \<^verbatim>\<open>returnToMainMenu\<close> are textually identical in both files. Definitions
  without a suffix follow \<^verbatim>\<open>part_000\<close>; definitions ending in
  \<open>_game_js\<close> follow \<^verbatim>\<open>game.js\<close> where it differs.

  JavaScript numbers are modelled as exact reals, with one exception: the throttle block is
  modelled a second time (\<open>handleSpeed_double\<close>) with IEEE-754 double-precision additions,
  because the value reached by repeated additions of 0.01 depends on the rounding.
  The plane mesh (the global \<^verbatim>\<open>plane\<close>) is taken as loaded, so
  \<^verbatim>\<open>plane.position\<close> and \<^verbatim>\<open>plane.rotation\<close> are plain fields of the
  state. Camera, light and the read-only text displays are not modelled; the two DOM texts
  that distinguish a completed level from a lost game (the restart button's text, which
  \<^verbatim>\<open>restartGame\<close> reads back, and the title) are.
\<close>

record vec3 =
  X :: real
  Y :: real
  Z :: real

text \<open>The \<^verbatim>\<open>userData\<close> of a pillar group.\<close>

record pillar =
  xPosition :: real
  zPosition :: real
  passed :: bool

text \<open>The \<^verbatim>\<open>userData\<close> of a barrier mesh.\<close>

record barrier =
  isBarrier :: bool
  barrier_xPosition :: real

text \<open>The golden ring: its world position and \<^verbatim>\<open>userData.zPosition\<close>.\<close>

record ring =
  position :: vec3
  ring_zPosition :: real

record level =
  number :: nat
  level_distance :: real
  unlocked :: bool

record box =
  minX :: real
  maxX :: real
  minY :: real
  maxY :: real
  minZ :: real
  maxZ :: real

record game =
  pillars :: "pillar list"
  barriers :: "barrier list"
  goldenRing :: "ring option"
  keys :: "string \<Rightarrow> bool"
  gameStarted :: bool
  gameOver :: bool
  LEVELS :: "level list"
  currentLevel :: nat
  levelDistance :: real
  speed :: real
  score :: int
  distance :: real
  planeRotation :: vec3
  planePosition :: vec3
  cameraAngle :: real
  firstPersonView :: bool
  plane_position :: vec3
  plane_rotation :: vec3
  plane_visible :: bool
  restartBtn_textContent :: string
  gameOverTitle_textContent :: string
  pendingLoads :: nat
  pendingTimers :: nat

text \<open>
  \<open>pendingLoads\<close> counts the model loads started by \<^verbatim>\<open>loadTowerModel\<close> whose
  callback has not run yet;
  \<open>pendingTimers\<close> counts the callbacks scheduled with \<^verbatim>\<open>setTimeout\<close> that have not
  run yet (only \<^verbatim>\<open>completeLevel\<close> of \<^verbatim>\<open>game.js\<close> schedules one).
\<close>

datatype js_error = TypeError

datatype notification = LevelLocked int

datatype phase = Menu | Playing | LevelComplete | GameOver

section \<open>Constants\<close>

definition PILLAR_HEIGHT :: real where "PILLAR_HEIGHT = 20"
definition PILLAR_WIDTH :: real where "PILLAR_WIDTH = 2"
definition PILLAR_SPACING :: real where "PILLAR_SPACING = 50"
definition INITIAL_SPEED :: real where "INITIAL_SPEED = 0.5"
definition MAX_SPEED :: real where "MAX_SPEED = 5"
definition MIN_SPEED :: real where "MIN_SPEED = 0.1"
definition LOCK_LEVEL :: bool where "LOCK_LEVEL = True"

definition PLANE_PERMANENT_ROTATION :: vec3 where
  "PLANE_PERMANENT_ROTATION = \<lparr>X = 0, Y = 0, Z = 0\<rparr>"

definition LEVELS_initial :: "level list" where
  "LEVELS_initial =
     [\<lparr>number = 1, level_distance = 3000, unlocked = True\<rparr>,
      \<lparr>number = 2, level_distance = 6000, unlocked = False\<rparr>,
      \<lparr>number = 3, level_distance = 9000, unlocked = False\<rparr>,
      \<lparr>number = 4, level_distance = 12000, unlocked = False\<rparr>,
      \<lparr>number = 5, level_distance = 15000, unlocked = False\<rparr>]"

text \<open>
  The module-level declarations: every script variable at its initial value. The two DOM
  texts come from the page, which is not part of the sources, so they are parameters.
\<close>

definition initial :: "string \<Rightarrow> string \<Rightarrow> game" where
  "initial btn title =
     \<lparr>pillars = [], barriers = [], goldenRing = None, keys = (\<lambda>k. False),
      gameStarted = False, gameOver = False, LEVELS = LEVELS_initial,
      currentLevel = 1, levelDistance = level_distance (LEVELS_initial ! 0),
      speed = INITIAL_SPEED, score = 0, distance = 0,
      planeRotation = \<lparr>X = 0, Y = 0, Z = 0\<rparr>,
      planePosition = \<lparr>X = 0, Y = 5, Z = 0\<rparr>,
      cameraAngle = 0, firstPersonView = False,
      plane_position = \<lparr>X = 0, Y = 5, Z = 0\<rparr>,
      plane_rotation = PLANE_PERMANENT_ROTATION,
      plane_visible = True,
      restartBtn_textContent = btn, gameOverTitle_textContent = title,
      pendingLoads = 0, pendingTimers = 0\<rparr>"

text \<open>
  The top-level state of the specification, read off the script's variables: the two flags,
  and the restart button's text to tell a completed level from a lost game (as
  \<^verbatim>\<open>restartGame\<close> does).
\<close>

definition phase_of :: "game \<Rightarrow> phase" where
  "phase_of s =
     (if gameOver s then
        (if restartBtn_textContent s = ''Continue'' then LevelComplete else GameOver)
      else if gameStarted s then Playing else Menu)"

section \<open>Obstacles\<close>

definition createPillar :: "real \<Rightarrow> real \<Rightarrow> pillar list \<Rightarrow> pillar list" where
  "createPillar xp zp ps = ps @ [\<lparr>xPosition = xp, zPosition = zp, passed = False\<rparr>]"

text \<open>
  One row of the generation loops. \<open>rnd i\<close> is the value of the \<open>i\<close>-th call of
  \<^verbatim>\<open>Math.random()\<close> in the enclosing handler; the result carries the index of the
  next call.
\<close>

definition spawnRow :: "(nat \<Rightarrow> real) \<Rightarrow> nat \<Rightarrow> real \<Rightarrow> pillar list \<Rightarrow> pillar list \<times> nat" where
  "spawnRow rnd i zp ps =
     (let numPillars = \<lfloor>rnd i * 3\<rfloor> + 1
      in (foldl (\<lambda>acc j. createPillar ((rnd (i + 1 + j) - 0.5) * 80) zp acc) ps
            [0..<nat numPillars],
          i + 1 + nat numPillars))"

text \<open>\<^verbatim>\<open>for (let z = z0; z < limit; z += PILLAR_SPACING)\<close> with a row per round.\<close>

function rowsFrom :: "real \<Rightarrow> real \<Rightarrow> (nat \<Rightarrow> real) \<Rightarrow> nat \<Rightarrow> pillar list \<Rightarrow> pillar list" where
  "rowsFrom zp limit rnd i ps =
     (if zp < limit
      then (case spawnRow rnd i zp ps of
              (ps', i') \<Rightarrow> rowsFrom (zp + PILLAR_SPACING) limit rnd i' ps')
      else ps)"
  by pat_completeness auto
termination
proof (relation "measure (\<lambda>(zp, limit, rnd, i, ps). nat \<lceil>(limit - zp) / 50\<rceil>)")
  show "wf (measure (\<lambda>(zp, limit, rnd, i, ps). nat \<lceil>(limit - zp) / 50\<rceil>))"
    by simp
next
  fix zp limit :: real and rnd :: "nat \<Rightarrow> real" and i :: nat and ps x :: "pillar list"
    and xa y :: "pillar list" and ya :: nat
  assume lt: "zp < limit"
  have "(limit - (zp + 50)) / 50 = (limit - zp) / 50 - 1"
    by (simp add: field_simps)
  then have "\<lceil>(limit - (zp + 50)) / 50\<rceil> = \<lceil>(limit - zp) / 50\<rceil> - 1"
    by (simp only: ceiling_diff_one)
  moreover have "0 < \<lceil>(limit - zp) / 50\<rceil>"
    using lt by simp
  ultimately show
    "((zp + PILLAR_SPACING, limit, rnd, ya, xa), (zp, limit, rnd, i, ps))
       \<in> measure (\<lambda>(zp, limit, rnd, i, ps). nat \<lceil>(limit - zp) / 50\<rceil>)"
    by (simp add: PILLAR_SPACING_def)
qed

declare rowsFrom.simps [simp del]

text \<open>\<^verbatim>\<open>generatePillars\<close> of \<^verbatim>\<open>part_000\<close>: rows from 60 m on.\<close>

definition generatePillars :: "(nat \<Rightarrow> real) \<Rightarrow> game \<Rightarrow> game" where
  "generatePillars rnd s =
     s\<lparr>pillars := rowsFrom 60 (levelDistance s - 100) rnd 0 (pillars s)\<rparr>"

definition createBarriers :: "game \<Rightarrow> game" where
  "createBarriers s =
     s\<lparr>barriers := [\<lparr>isBarrier = True, barrier_xPosition = - 42\<rparr>,
                     \<lparr>isBarrier = True, barrier_xPosition = 42\<rparr>]\<rparr>"

definition createGoldenRing :: "game \<Rightarrow> game" where
  "createGoldenRing s =
     s\<lparr>goldenRing := Some \<lparr>position = \<lparr>X = 0, Y = 8, Z = levelDistance s - 50\<rparr>,
                            ring_zPosition = levelDistance s - 50\<rparr>\<rparr>"

section \<open>State transitions\<close>

definition endGame :: "game \<Rightarrow> game" where
  "endGame s =
     s\<lparr>gameOver := True, gameStarted := False,
       restartBtn_textContent := ''Restart Game'',
       gameOverTitle_textContent := ''Game Over!''\<rparr>"

text \<open>\<^verbatim>\<open>completeLevel\<close> of \<^verbatim>\<open>part_000\<close>: no timer is scheduled.\<close>

definition completeLevel :: "game \<Rightarrow> game" where
  "completeLevel s =
     s\<lparr>gameOver := True, gameStarted := False,
       LEVELS := (if currentLevel s < length (LEVELS s)
                  then (LEVELS s)[currentLevel s := (LEVELS s ! currentLevel s)\<lparr>unlocked := True\<rparr>]
                  else LEVELS s),
       gameOverTitle_textContent :=
         (if currentLevel s = length (LEVELS s) then ''All Levels Complete!''
          else ''Level Complete!''),
       restartBtn_textContent := ''Continue''\<rparr>"

text \<open>
  \<^verbatim>\<open>completeLevel\<close> of \<^verbatim>\<open>game.js\<close>: the same, and a 3000 ms timer is scheduled
  when a next level exists ("Auto-advance to next level after a delay").
\<close>

definition completeLevel_game_js :: "game \<Rightarrow> game" where
  "completeLevel_game_js s =
     (let t = completeLevel s
      in if currentLevel s < length (LEVELS s)
         then t\<lparr>pendingTimers := pendingTimers t + 1\<rparr> else t)"

section \<open>The simulation tick\<close>

definition handleSpeed :: "game \<Rightarrow> game" where
  "handleSpeed s =
     (let s1 = (if keys s ''w'' then s\<lparr>speed := min (speed s + 0.01) MAX_SPEED\<rparr> else s)
      in if keys s1 ''s'' then s1\<lparr>speed := max (speed s1 - 0.01) MIN_SPEED\<rparr> else s1)"

definition handleSteering :: "game \<Rightarrow> game" where
  "handleSteering s =
     (if keys s ''d'' then
        s\<lparr>planePosition := (planePosition s)\<lparr>X := X (planePosition s) - 0.3\<rparr>,
          planeRotation := (planeRotation s)\<lparr>Z := min (Z (planeRotation s) + 0.02) 0.3\<rparr>\<rparr>
      else if keys s ''a'' then
        s\<lparr>planePosition := (planePosition s)\<lparr>X := X (planePosition s) + 0.3\<rparr>,
          planeRotation := (planeRotation s)\<lparr>Z := max (Z (planeRotation s) - 0.02) (- 0.3)\<rparr>\<rparr>
      else
        s\<lparr>planeRotation := (planeRotation s)\<lparr>Z := Z (planeRotation s) * 0.9\<rparr>\<rparr>)"

definition handlePitch :: "game \<Rightarrow> game" where
  "handlePitch s =
     (if keys s ''arrowup'' then
        s\<lparr>planePosition := (planePosition s)\<lparr>Y := max (Y (planePosition s) - 0.1) 1\<rparr>,
          planeRotation := (planeRotation s)\<lparr>X := min (X (planeRotation s) + 0.02) 0.3\<rparr>\<rparr>
      else if keys s ''arrowdown'' then
        s\<lparr>planePosition := (planePosition s)\<lparr>Y := min (Y (planePosition s) + 0.1) 15\<rparr>,
          planeRotation := (planeRotation s)\<lparr>X := max (X (planeRotation s) - 0.02) (- 0.3)\<rparr>\<rparr>
      else
        s\<lparr>planeRotation := (planeRotation s)\<lparr>X := X (planeRotation s) * 0.9\<rparr>\<rparr>)"

definition handleCamera :: "game \<Rightarrow> game" where
  "handleCamera s =
     (if keys s ''arrowright'' then s\<lparr>cameraAngle := cameraAngle s + 0.02\<rparr>
      else if keys s ''arrowleft'' then s\<lparr>cameraAngle := cameraAngle s - 0.02\<rparr>
      else s)"

text \<open>Copy x, y and the two angles to the mesh.\<close>

definition syncPlane :: "game \<Rightarrow> game" where
  "syncPlane s =
     s\<lparr>plane_position := (plane_position s)\<lparr>X := X (planePosition s), Y := Y (planePosition s)\<rparr>,
       plane_rotation := (plane_rotation s)\<lparr>Z := Z (planeRotation s), X := X (planeRotation s)\<rparr>\<rparr>"

text \<open>Move forward by the current speed and add it to the distance travelled.\<close>

definition moveForward :: "game \<Rightarrow> game" where
  "moveForward s =
     (let pz = Z (planePosition s) + speed s
      in s\<lparr>planePosition := (planePosition s)\<lparr>Z := pz\<rparr>,
           plane_position := (plane_position s)\<lparr>Z := pz\<rparr>,
           distance := distance s + speed s\<rparr>)"

text \<open>
  The scoring pass: \<^verbatim>\<open>pillars.forEach\<close> marking the pillars behind the plane and adding
  10 points for each newly marked one.
\<close>

fun scorePass :: "real \<Rightarrow> pillar list \<Rightarrow> int \<Rightarrow> pillar list \<times> int" where
  "scorePass pz [] sc = ([], sc)"
| "scorePass pz (p # ps) sc =
     (if \<not> passed p \<and> zPosition p < pz
      then (case scorePass pz ps (sc + 10) of (ps', sc') \<Rightarrow> (p\<lparr>passed := True\<rparr> # ps', sc'))
      else (case scorePass pz ps sc of (ps', sc') \<Rightarrow> (p # ps', sc')))"

definition markPassed :: "game \<Rightarrow> game" where
  "markPassed s =
     (case scorePass (Z (plane_position s)) (pillars s) (score s) of
        (ps, sc) \<Rightarrow> s\<lparr>pillars := ps, score := sc\<rparr>)"

subsection \<open>Collisions\<close>

definition planeBox :: "game \<Rightarrow> box" where
  "planeBox s =
     \<lparr>minX = X (plane_position s) - 3, maxX = X (plane_position s) + 3,
      minY = Y (plane_position s) - 0.5, maxY = Y (plane_position s) + 0.5,
      minZ = Z (plane_position s) - 1, maxZ = Z (plane_position s) + 1\<rparr>"

definition pillarBox :: "pillar \<Rightarrow> box" where
  "pillarBox p =
     \<lparr>minX = xPosition p - PILLAR_WIDTH / 2, maxX = xPosition p + PILLAR_WIDTH / 2,
      minY = 0, maxY = PILLAR_HEIGHT,
      minZ = zPosition p - PILLAR_WIDTH / 2, maxZ = zPosition p + PILLAR_WIDTH / 2\<rparr>"

definition collision :: "box \<Rightarrow> box \<Rightarrow> bool" where
  "collision pb qb =
     (let collisionX = (maxX pb \<ge> minX qb \<and> minX pb \<le> maxX qb);
          collisionY = (maxY pb \<ge> minY qb \<and> minY pb \<le> maxY qb);
          collisionZ = (maxZ pb \<ge> minZ qb \<and> minZ pb \<le> maxZ qb)
      in collisionX \<and> collisionY \<and> collisionZ)"

text \<open>The \<^verbatim>\<open>pillars.forEach\<close> of \<^verbatim>\<open>checkCollisions\<close>.\<close>

definition checkPillars :: "game \<Rightarrow> game" where
  "checkPillars s =
     (let pb = planeBox s
      in foldl (\<lambda>t p. if collision pb (pillarBox p) then endGame t else t) s (pillars s))"

text \<open>The barrier block of \<^verbatim>\<open>checkCollisions\<close> (\<^verbatim>\<open>part_000\<close> only).\<close>

definition BARRIER_X_LIMIT :: real where "BARRIER_X_LIMIT = 42"
definition PLANE_HALF_WIDTH :: real where "PLANE_HALF_WIDTH = 3"

definition constrainBarriers :: "game \<Rightarrow> game" where
  "constrainBarriers s =
     (if X (planePosition s) - PLANE_HALF_WIDTH < - BARRIER_X_LIMIT then
        (let nx = - BARRIER_X_LIMIT + PLANE_HALF_WIDTH
         in s\<lparr>planePosition := (planePosition s)\<lparr>X := nx\<rparr>,
              plane_position := (plane_position s)\<lparr>X := nx\<rparr>\<rparr>)
      else if X (planePosition s) + PLANE_HALF_WIDTH > BARRIER_X_LIMIT then
        (let nx = BARRIER_X_LIMIT - PLANE_HALF_WIDTH
         in s\<lparr>planePosition := (planePosition s)\<lparr>X := nx\<rparr>,
              plane_position := (plane_position s)\<lparr>X := nx\<rparr>\<rparr>)
      else s)"

definition checkGround :: "game \<Rightarrow> game" where
  "checkGround s = (if Y (plane_position s) < 0.5 then endGame s else s)"

definition checkCollisions :: "game \<Rightarrow> game" where
  "checkCollisions s = checkGround (constrainBarriers (checkPillars s))"

definition checkCollisions_game_js :: "game \<Rightarrow> game" where
  "checkCollisions_game_js s = checkGround (checkPillars s)"

subsection \<open>Streaming and eviction\<close>

definition furthestPillar :: "pillar list \<Rightarrow> real" where
  "furthestPillar ps = foldl (\<lambda>mx p. if zPosition p > mx then zPosition p else mx) 0 ps"

definition generateMore :: "(nat \<Rightarrow> real) \<Rightarrow> game \<Rightarrow> game" where
  "generateMore rnd s =
     (let f = furthestPillar (pillars s)
      in if f < Z (plane_position s) + 200
         then s\<lparr>pillars := rowsFrom (f + PILLAR_SPACING) (Z (plane_position s) + 500) rnd 0
                               (pillars s)\<rparr>
         else s)"

text \<open>\<^verbatim>\<open>pillars.splice(i, 1)\<close>.\<close>

definition splice1 :: "nat \<Rightarrow> 'a list \<Rightarrow> 'a list" where
  "splice1 i xs = take i xs @ drop (Suc i) xs"

text \<open>
  \<^verbatim>\<open>for (let i = pillars.length - 1; i >= 0; i--)\<close>: the first argument is
  \<open>i + 1\<close>, so that 0 ends the loop.
\<close>

fun evictFrom :: "nat \<Rightarrow> real \<Rightarrow> pillar list \<Rightarrow> pillar list" where
  "evictFrom 0 b ps = ps"
| "evictFrom (Suc i) b ps =
     evictFrom i b (if zPosition (ps ! i) < b then splice1 i ps else ps)"

definition removeFarBehind :: "game \<Rightarrow> game" where
  "removeFarBehind s =
     s\<lparr>pillars := evictFrom (length (pillars s)) (Z (plane_position s) - 100) (pillars s)\<rparr>"

subsection \<open>The goal ring\<close>

definition distanceFromCenter :: "game \<Rightarrow> ring \<Rightarrow> real" where
  "distanceFromCenter s r =
     sqrt ((X (plane_position s) - X (position r))\<^sup>2 + (Y (plane_position s) - Y (position r))\<^sup>2)"

text \<open>The ring-arrival check; \<open>cl\<close> is the file's \<^verbatim>\<open>completeLevel\<close>.\<close>

definition ringCheck :: "(game \<Rightarrow> game) \<Rightarrow> game \<Rightarrow> game" where
  "ringCheck cl s =
     (case goldenRing s of
        None \<Rightarrow> s
      | Some r \<Rightarrow>
          if Z (plane_position s) \<ge> ring_zPosition r - 2 \<and>
             Z (plane_position s) \<le> ring_zPosition r + 2
          then (let d = distanceFromCenter s r
                in if d \<le> 6 then cl s
                   else if d > 6 \<and> d < 8 then endGame s
                   else s)
          else s)"

text \<open>The "passed the ring without going through it" check.\<close>

definition passedRingCheck :: "game \<Rightarrow> game" where
  "passedRingCheck s =
     (case goldenRing s of
        None \<Rightarrow> s
      | Some r \<Rightarrow> if Z (plane_position s) > ring_zPosition r + 10 then endGame s else s)"

subsection \<open>The tick\<close>

text \<open>Everything \<^verbatim>\<open>update\<close> does up to and including the scoring pass.\<close>

definition kinematics :: "game \<Rightarrow> game" where
  "kinematics s =
     markPassed (moveForward (syncPlane (handleCamera (handlePitch (handleSteering (handleSpeed s))))))"

text \<open>
  \<^verbatim>\<open>update\<close>, the same text in both files; \<open>cc\<close> and \<open>cl\<close> are the file's
  \<^verbatim>\<open>checkCollisions\<close> and \<^verbatim>\<open>completeLevel\<close>.
\<close>

definition update_with ::
  "(game \<Rightarrow> game) \<Rightarrow> (game \<Rightarrow> game) \<Rightarrow> (nat \<Rightarrow> real) \<Rightarrow> game \<Rightarrow> game" where
  "update_with cc cl rnd s =
     (if \<not> gameStarted s \<or> gameOver s then s
      else passedRingCheck (ringCheck cl (removeFarBehind (generateMore rnd (cc (kinematics s))))))"

definition update :: "(nat \<Rightarrow> real) \<Rightarrow> game \<Rightarrow> game" where
  "update = update_with checkCollisions completeLevel"

definition update_game_js :: "(nat \<Rightarrow> real) \<Rightarrow> game \<Rightarrow> game" where
  "update_game_js = update_with checkCollisions_game_js completeLevel_game_js"

section \<open>Event handlers\<close>

text \<open>
  \<^verbatim>\<open>loadTowerModel\<close> starts an asynchronous load; one of its two callbacks runs later.
\<close>

definition loadTowerModel :: "game \<Rightarrow> game" where
  "loadTowerModel s = s\<lparr>pendingLoads := pendingLoads s + 1\<rparr>"

text \<open>The success callback: clear pillars, barriers and ring, then build them anew.\<close>

definition towerLoaded :: "(nat \<Rightarrow> real) \<Rightarrow> game \<Rightarrow> game" where
  "towerLoaded rnd s =
     createGoldenRing (createBarriers (generatePillars rnd
       (s\<lparr>pillars := [], barriers := [], goldenRing := None,
          pendingLoads := pendingLoads s - 1\<rparr>)))"

text \<open>The error callback: build pillars, barriers and ring with the fallback boxes.\<close>

definition towerLoadError :: "(nat \<Rightarrow> real) \<Rightarrow> game \<Rightarrow> game" where
  "towerLoadError rnd s =
     createGoldenRing (createBarriers (generatePillars rnd
       (s\<lparr>pendingLoads := pendingLoads s - 1\<rparr>)))"

text \<open>\<^verbatim>\<open>init\<close>, as far as the state goes: it starts the first load.\<close>

definition init :: "game \<Rightarrow> game" where
  "init s = loadTowerModel s"

text \<open>The argument is \<^verbatim>\<open>event.key.toLowerCase()\<close>.\<close>

definition onKeyDown :: "string \<Rightarrow> game \<Rightarrow> game" where
  "onKeyDown key s =
     (let s1 = s\<lparr>keys := (keys s)(key := True)\<rparr>
      in if key = ''c''
         then (let s2 = s1\<lparr>firstPersonView := \<not> firstPersonView s1\<rparr>
               in s2\<lparr>plane_visible := \<not> firstPersonView s2\<rparr>)
         else s1)"

definition onKeyUp :: "string \<Rightarrow> game \<Rightarrow> game" where
  "onKeyUp key s = s\<lparr>keys := (keys s)(key := False)\<rparr>"

text \<open>
  \<^verbatim>\<open>selectLevel\<close> of \<^verbatim>\<open>part_000\<close>. The argument is the integer parsed from the
  button's \<^verbatim>\<open>data-level\<close>; outside 1..5 \<^verbatim>\<open>LEVELS[levelNum - 1]\<close> is undefined
  and reading \<^verbatim>\<open>level.unlocked\<close> throws. \<open>lock\<close> is \<^verbatim>\<open>LOCK_LEVEL\<close>. The
  result carries the alert shown, if any.
\<close>

definition selectLevel_with ::
  "bool \<Rightarrow> int \<Rightarrow> game \<Rightarrow> js_error + (notification option \<times> game)" where
  "selectLevel_with lock levelNum s =
     (if levelNum < 1 \<or> int (length (LEVELS s)) < levelNum then Inl TypeError
      else
        (let level = LEVELS s ! nat (levelNum - 1)
         in if lock \<and> \<not> unlocked level then Inr (Some (LevelLocked levelNum), s)
            else Inr (None,
                   (loadTowerModel
                      (s\<lparr>currentLevel := nat levelNum,
                         levelDistance := level_distance level,
                         pillars := []\<rparr>))
                   \<lparr>gameStarted := True, gameOver := False\<rparr>)))"

definition selectLevel :: "int \<Rightarrow> game \<Rightarrow> js_error + (notification option \<times> game)" where
  "selectLevel = selectLevel_with LOCK_LEVEL"

definition startGame :: "game \<Rightarrow> game" where
  "startGame s = s\<lparr>gameStarted := True\<rparr>"

text \<open>The reset block shared by \<^verbatim>\<open>restartGame\<close> (both files).\<close>

definition resetSession :: "game \<Rightarrow> game" where
  "resetSession s =
     s\<lparr>gameOver := False, gameStarted := True,
       speed := INITIAL_SPEED, score := 0, distance := 0,
       planePosition := \<lparr>X = 0, Y = 5, Z = 0\<rparr>,
       planeRotation := \<lparr>X = 0, Y = 0, Z = 0\<rparr>,
       cameraAngle := 0, firstPersonView := False,
       plane_position := \<lparr>X = 0, Y = 5, Z = 0\<rparr>,
       plane_rotation := PLANE_PERMANENT_ROTATION,
       plane_visible := True,
       pillars := []\<rparr>"

text \<open>
  \<^verbatim>\<open>restartGame\<close> of \<^verbatim>\<open>part_000\<close>: when the button reads "Continue" and a next
  level exists, the level index advances first; then the session is reset and a load is
  started, whose callback builds pillars and ring for the current target distance.
\<close>

definition restartGame :: "game \<Rightarrow> game" where
  "restartGame s =
     (let s1 = (if restartBtn_textContent s = ''Continue'' \<and> currentLevel s < length (LEVELS s)
                then (let n = currentLevel s + 1
                      in s\<lparr>currentLevel := n, levelDistance := level_distance (LEVELS s ! (n - 1))\<rparr>)
                else s)
      in loadTowerModel
           (resetSession
              (s1\<lparr>restartBtn_textContent := ''Restart Game'',
                  gameOverTitle_textContent := ''Game Over!''\<rparr>)))"

definition returnToMainMenu :: "game \<Rightarrow> game" where
  "returnToMainMenu s =
     s\<lparr>gameOver := False, gameStarted := False,
       speed := INITIAL_SPEED, score := 0, distance := 0,
       planePosition := \<lparr>X = 0, Y = 5, Z = 0\<rparr>,
       planeRotation := \<lparr>X = 0, Y = 0, Z = 0\<rparr>,
       cameraAngle := 0, firstPersonView := False,
       plane_position := \<lparr>X = 0, Y = 5, Z = 0\<rparr>,
       plane_rotation := PLANE_PERMANENT_ROTATION,
       plane_visible := True,
       pillars := []\<rparr>"

subsection \<open>The handlers of \<^verbatim>\<open>game.js\<close> that differ\<close>

text \<open>
  \<^verbatim>\<open>selectLevel\<close> of \<^verbatim>\<open>game.js\<close>: the lock is always checked, and
  \<^verbatim>\<open>startGame\<close> is called.
\<close>

definition selectLevel_game_js :: "int \<Rightarrow> game \<Rightarrow> js_error + (notification option \<times> game)" where
  "selectLevel_game_js levelNum s =
     (if levelNum < 1 \<or> int (length (LEVELS s)) < levelNum then Inl TypeError
      else
        (let level = LEVELS s ! nat (levelNum - 1)
         in if \<not> unlocked level then Inr (Some (LevelLocked levelNum), s)
            else Inr (None,
                   startGame (s\<lparr>currentLevel := nat levelNum,
                                levelDistance := level_distance level\<rparr>))))"

definition generatePillars_game_js :: "(nat \<Rightarrow> real) \<Rightarrow> game \<Rightarrow> game" where
  "generatePillars_game_js rnd s =
     s\<lparr>pillars := rowsFrom 20 (levelDistance s - 100) rnd 0 (pillars s)\<rparr>"



section \<open>Runs\<close>

text \<open>
  What can happen to the state of \<^verbatim>\<open>part_000\<close>: a frame, a key event, a click, or the
  end of a pending load. A handler that throws leaves the state as it was, since
  \<^verbatim>\<open>selectLevel\<close> throws before its first assignment.
\<close>

datatype event =
    Tick "nat \<Rightarrow> real"
  | KeyDown string
  | KeyUp string
  | ClickStart
  | ClickRestart
  | ClickMainMenu
  | ClickLevel int
  | TowerLoaded "nat \<Rightarrow> real"
  | TowerLoadError "nat \<Rightarrow> real"

fun step :: "event \<Rightarrow> game \<Rightarrow> game" where
  "step (Tick rnd) s = update rnd s"
| "step (KeyDown k) s = onKeyDown k s"
| "step (KeyUp k) s = onKeyUp k s"
| "step ClickStart s = startGame s"
| "step ClickRestart s = restartGame s"
| "step ClickMainMenu s = returnToMainMenu s"
| "step (ClickLevel n) s = (case selectLevel n s of Inl e \<Rightarrow> s | Inr (a, t) \<Rightarrow> t)"
| "step (TowerLoaded rnd) s = (if 0 < pendingLoads s then towerLoaded rnd s else s)"
| "step (TowerLoadError rnd) s = (if 0 < pendingLoads s then towerLoadError rnd s else s)"

definition run :: "event list \<Rightarrow> game \<Rightarrow> game" where
  "run evs s = foldl (\<lambda>t e. step e t) s evs"

section \<open>Derived notions\<close>

text \<open>Some pillar's box overlaps the plane's box on all three axes.\<close>

definition hitsPillar :: "game \<Rightarrow> bool" where
  "hitsPillar s = (\<exists>p\<in>set (pillars s). collision (planeBox s) (pillarBox p))"

text \<open>Test inputs: \<^verbatim>\<open>Math.random()\<close> always returning \<open>c\<close>; the keys in \<open>ks\<close> held.\<close>

definition always :: "real \<Rightarrow> nat \<Rightarrow> real" where
  "always c i = c"

definition holding :: "string list \<Rightarrow> string \<Rightarrow> bool" where
  "holding ks k = (k \<in> set ks)"

text \<open>The movement envelope: speed, pitch angle and roll angle within their bounds.\<close>

definition kinematic_envelope :: "game \<Rightarrow> bool" where
  "kinematic_envelope s \<longleftrightarrow>
     MIN_SPEED \<le> speed s \<and> speed s \<le> MAX_SPEED \<and>
     - 0.3 \<le> X (planeRotation s) \<and> X (planeRotation s) \<le> 0.3 \<and>
     - 0.3 \<le> Z (planeRotation s) \<and> Z (planeRotation s) \<le> 0.3"

text \<open>The altitude band and the lateral band of the plane.\<close>

definition altitude_ok :: "game \<Rightarrow> bool" where
  "altitude_ok s \<longleftrightarrow> 1 \<le> Y (planePosition s) \<and> Y (planePosition s) \<le> 15"

definition within_barriers :: "game \<Rightarrow> bool" where
  "within_barriers s \<longleftrightarrow> \<bar>X (planePosition s)\<bar> \<le> 39"

text \<open>
  Consecutive frames with no event in between, for either file's \<^verbatim>\<open>update\<close>; and the
  condition that the game is in Playing at the start of each of them.
\<close>

fun ticks_with ::
  "((nat \<Rightarrow> real) \<Rightarrow> game \<Rightarrow> game) \<Rightarrow> (nat \<Rightarrow> real) list \<Rightarrow> game \<Rightarrow> game" where
  "ticks_with upd [] s = s"
| "ticks_with upd (r # rs) s = ticks_with upd rs (upd r s)"

fun allPlaying_with ::
  "((nat \<Rightarrow> real) \<Rightarrow> game \<Rightarrow> game) \<Rightarrow> (nat \<Rightarrow> real) list \<Rightarrow> game \<Rightarrow> bool" where
  "allPlaying_with upd [] s = True"
| "allPlaying_with upd (r # rs) s = (phase_of s = Playing \<and> allPlaying_with upd rs (upd r s))"


definition climbing_state :: game where
  "climbing_state = run [ClickStart, KeyDown ''arrowup''] (init (initial [] []))"

definition wall_state :: game where
  "wall_state =
     (startGame (initial [] []))
       \<lparr>keys := holding [''a''],
        planePosition := \<lparr>X = 39, Y = 5, Z = 0\<rparr>,
        plane_position := \<lparr>X = 39, Y = 5, Z = 0\<rparr>\<rparr>"

text \<open>
  What the scoring pass does to one pillar when the plane is at \<open>pz\<close>, and the pillars it
  counts.
\<close>

definition mark :: "real \<Rightarrow> pillar \<Rightarrow> pillar" where
  "mark pz p = (if \<not> passed p \<and> zPosition p < pz then p\<lparr>passed := True\<rparr> else p)"

definition newlyPassed :: "real \<Rightarrow> pillar list \<Rightarrow> pillar list" where
  "newlyPassed pz ps = filter (\<lambda>p. \<not> passed p \<and> zPosition p < pz) ps"

definition unpassed :: "pillar list \<Rightarrow> pillar list" where
  "unpassed ps = filter (\<lambda>p. \<not> passed p) ps"

text \<open>
  The state of a tick when it reaches the two ring checks (all of \<^verbatim>\<open>update\<close> up to and
  including the eviction loop), for each file.
\<close>

definition beforeRing :: "(nat \<Rightarrow> real) \<Rightarrow> game \<Rightarrow> game" where
  "beforeRing rnd s = removeFarBehind (generateMore rnd (checkCollisions (kinematics s)))"

definition beforeRing_game_js :: "(nat \<Rightarrow> real) \<Rightarrow> game \<Rightarrow> game" where
  "beforeRing_game_js rnd s =
     removeFarBehind (generateMore rnd (checkCollisions_game_js (kinematics s)))"

text \<open>
  More concrete inputs. \<open>scoring_state\<close>: in play just before a pillar at \<open>z = 60\<close>, with
  an already passed pillar behind. \<open>eviction_state\<close>: in play at \<open>z = 134.5\<close> with passed
  pillars at \<open>z = 30\<close> and \<open>z = 35\<close>. \<open>approach xp yp zp\<close>: level 1 loaded and started, the
  plane placed at the given point.
\<close>

definition scoring_state :: game where
  "scoring_state =
     (startGame (initial [] []))
       \<lparr>planePosition := \<lparr>X = 0, Y = 5, Z = 59.8\<rparr>,
        plane_position := \<lparr>X = 0, Y = 5, Z = 59.8\<rparr>,
        pillars := [\<lparr>xPosition = 30, zPosition = 60, passed = False\<rparr>,
                    \<lparr>xPosition = - 30, zPosition = 10, passed = True\<rparr>]\<rparr>"

definition eviction_state :: game where
  "eviction_state =
     (startGame (initial [] []))
       \<lparr>planePosition := \<lparr>X = 0, Y = 5, Z = 134.5\<rparr>,
        plane_position := \<lparr>X = 0, Y = 5, Z = 134.5\<rparr>,
        pillars := [\<lparr>xPosition = 30, zPosition = 30, passed = True\<rparr>,
                    \<lparr>xPosition = - 30, zPosition = 35, passed = True\<rparr>]\<rparr>"

definition approach :: "real \<Rightarrow> real \<Rightarrow> real \<Rightarrow> game" where
  "approach xp yp zp =
     (startGame (towerLoaded (always 0) (init (initial [] []))))
       \<lparr>planePosition := \<lparr>X = xp, Y = yp, Z = zp\<rparr>,
        plane_position := \<lparr>X = xp, Y = yp, Z = zp\<rparr>\<rparr>"

text \<open>The ring of level 1, as \<^verbatim>\<open>createGoldenRing\<close> builds it for \<open>levelDistance = 3000\<close>.\<close>

definition level1_ring :: ring where
  "level1_ring = \<lparr>position = \<lparr>X = 0, Y = 8, Z = 2950\<rparr>, ring_zPosition = 2950\<rparr>"

text \<open>
  \<^verbatim>\<open>init\<close> of \<^verbatim>\<open>game.js\<close> builds pillars and ring at once; \<open>game_js_started\<close> is
  level 1 of \<^verbatim>\<open>game.js\<close> after the Start button.
\<close>

definition init_game_js :: "(nat \<Rightarrow> real) \<Rightarrow> game \<Rightarrow> game" where
  "init_game_js rnd s = createGoldenRing (generatePillars_game_js rnd s)"

definition game_js_started :: game where
  "game_js_started = startGame (init_game_js (always 0) (initial [] []))"

text \<open>
  A lane free of obstacles for the next \<open>n\<close> ticks: in Playing, not steering right, the plane
  at \<open>x \<ge> 0\<close> and \<open>y \<ge> 1\<close>, every pillar at \<open>x = -40\<close> (where \<open>always 0\<close> puts them), and
  the ring, if any, more than \<open>5 n + 2\<close> ahead.
\<close>

definition clear_lane :: "nat \<Rightarrow> game \<Rightarrow> bool" where
  "clear_lane n s \<longleftrightarrow>
     phase_of s = Playing \<and> \<not> keys s ''d'' \<and>
     0 \<le> X (planePosition s) \<and> 1 \<le> Y (planePosition s) \<and> speed s \<le> MAX_SPEED \<and>
     (\<forall>p\<in>set (pillars s). xPosition p = - 40) \<and>
     (case goldenRing s of
        None \<Rightarrow> True
      | Some r \<Rightarrow> Z (planePosition s) + 5 * real n < ring_zPosition r - 2)"

text \<open>Level 1 of \<^verbatim>\<open>game.js\<close> started, the player holding A.\<close>

definition game_js_steering_left :: game where
  "game_js_steering_left = onKeyDown ''a'' game_js_started"


section \<open>Double-precision throttle\<close>

text \<open>
  A JavaScript number is an IEEE-754 binary64 value, and the result of an addition, of a
  subtraction or of a decimal literal is the exact value rounded to the nearest binary64
  value, ties to even. For a nonzero \<open>x\<close> of normal magnitude the exponent is
  \<open>\<lfloor>log 2 \<bar>x\<bar>\<rfloor>\<close> and neighbouring values are \<open>2 powr (exponent - 52)\<close> apart.
  Overflow and subnormal values are not modelled: the speed stays between 0.09 and 5.01.
\<close>

definition roundTiesToEven :: "real \<Rightarrow> int" where
  "roundTiesToEven y =
     (let f = \<lfloor>y\<rfloor>
      in if y - of_int f < 1 / 2 then f
         else if 1 / 2 < y - of_int f then f + 1
         else if even f then f else f + 1)"

definition ulp :: "real \<Rightarrow> real" where
  "ulp x = 2 powr (of_int \<lfloor>log 2 \<bar>x\<bar>\<rfloor> - 52)"

definition binary64 :: "real \<Rightarrow> real" where
  "binary64 x = (if x = 0 then 0 else of_int (roundTiesToEven (x / ulp x)) * ulp x)"

text \<open>
  The throttle block of \<^verbatim>\<open>update\<close> with the arithmetic of the script: the literals
  \<^verbatim>\<open>0.01\<close> and \<^verbatim>\<open>0.1\<close> (\<^verbatim>\<open>MIN_SPEED\<close>) and each sum and difference are
  rounded; \<^verbatim>\<open>Math.min\<close>, \<^verbatim>\<open>Math.max\<close> and \<^verbatim>\<open>MAX_SPEED = 5\<close> are exact. In a tick
  in Playing this block is the only statement that assigns \<^verbatim>\<open>speed\<close>, and it reads
  only \<^verbatim>\<open>speed\<close> and the held keys, so over consecutive ticks in Playing with the same
  keys held the speed is this block iterated.
\<close>

definition handleSpeed_double :: "game \<Rightarrow> game" where
  "handleSpeed_double s =
     (let s1 = (if keys s ''w''
                then s\<lparr>speed := min (binary64 (speed s + binary64 0.01)) MAX_SPEED\<rparr> else s)
      in if keys s1 ''s''
         then s1\<lparr>speed := max (binary64 (speed s1 - binary64 0.01)) (binary64 0.1)\<rparr> else s1)"


section \<open>Basic facts\<close>

lemma endGame_idem: "endGame (endGame s) = endGame s"
  by (simp add: endGame_def)

lemma foldl_endGame_absorb:
  "foldl (\<lambda>t p. if c p then endGame t else t) (endGame s) ps = endGame s"
  by (induction ps) (simp_all add: endGame_idem)

lemma foldl_endGame:
  "foldl (\<lambda>t p. if c p then endGame t else t) s ps = (if \<exists>p\<in>set ps. c p then endGame s else s)"
  by (induction ps arbitrary: s) (auto simp: foldl_endGame_absorb endGame_idem)

lemma checkPillars_eq:
  "checkPillars s = (if hitsPillar s then endGame s else s)"
  by (simp add: checkPillars_def Let_def foldl_endGame hitsPillar_def)

subsection \<open>What each stage of the tick leaves alone\<close>

lemma endGame_frame [simp]:
  "pillars (endGame s) = pillars s" "barriers (endGame s) = barriers s"
  "goldenRing (endGame s) = goldenRing s" "keys (endGame s) = keys s"
  "LEVELS (endGame s) = LEVELS s" "currentLevel (endGame s) = currentLevel s"
  "levelDistance (endGame s) = levelDistance s" "speed (endGame s) = speed s"
  "score (endGame s) = score s" "distance (endGame s) = distance s"
  "planeRotation (endGame s) = planeRotation s" "planePosition (endGame s) = planePosition s"
  "cameraAngle (endGame s) = cameraAngle s" "firstPersonView (endGame s) = firstPersonView s"
  "plane_position (endGame s) = plane_position s" "plane_rotation (endGame s) = plane_rotation s"
  "plane_visible (endGame s) = plane_visible s" "pendingLoads (endGame s) = pendingLoads s"
  "pendingTimers (endGame s) = pendingTimers s"
  by (simp_all add: endGame_def)

lemma completeLevel_frame [simp]:
  "pillars (completeLevel s) = pillars s" "barriers (completeLevel s) = barriers s"
  "goldenRing (completeLevel s) = goldenRing s" "keys (completeLevel s) = keys s"
  "currentLevel (completeLevel s) = currentLevel s"
  "levelDistance (completeLevel s) = levelDistance s" "speed (completeLevel s) = speed s"
  "score (completeLevel s) = score s" "distance (completeLevel s) = distance s"
  "planeRotation (completeLevel s) = planeRotation s"
  "planePosition (completeLevel s) = planePosition s"
  "cameraAngle (completeLevel s) = cameraAngle s"
  "firstPersonView (completeLevel s) = firstPersonView s"
  "plane_position (completeLevel s) = plane_position s"
  "plane_rotation (completeLevel s) = plane_rotation s"
  "plane_visible (completeLevel s) = plane_visible s"
  "pendingLoads (completeLevel s) = pendingLoads s"
  "pendingTimers (completeLevel s) = pendingTimers s"
  by (simp_all add: completeLevel_def)

lemma completeLevel_game_js_frame [simp]:
  "pillars (completeLevel_game_js s) = pillars s"
  "barriers (completeLevel_game_js s) = barriers s"
  "goldenRing (completeLevel_game_js s) = goldenRing s" "keys (completeLevel_game_js s) = keys s"
  "currentLevel (completeLevel_game_js s) = currentLevel s"
  "levelDistance (completeLevel_game_js s) = levelDistance s"
  "speed (completeLevel_game_js s) = speed s" "score (completeLevel_game_js s) = score s"
  "distance (completeLevel_game_js s) = distance s"
  "planeRotation (completeLevel_game_js s) = planeRotation s"
  "planePosition (completeLevel_game_js s) = planePosition s"
  "cameraAngle (completeLevel_game_js s) = cameraAngle s"
  "firstPersonView (completeLevel_game_js s) = firstPersonView s"
  "plane_position (completeLevel_game_js s) = plane_position s"
  "plane_rotation (completeLevel_game_js s) = plane_rotation s"
  "plane_visible (completeLevel_game_js s) = plane_visible s"
  "pendingLoads (completeLevel_game_js s) = pendingLoads s"
  by (simp_all add: completeLevel_game_js_def Let_def)

lemma handleSpeed_frame [simp]:
  "pillars (handleSpeed s) = pillars s" "barriers (handleSpeed s) = barriers s"
  "goldenRing (handleSpeed s) = goldenRing s" "keys (handleSpeed s) = keys s"
  "gameStarted (handleSpeed s) = gameStarted s" "gameOver (handleSpeed s) = gameOver s"
  "LEVELS (handleSpeed s) = LEVELS s" "currentLevel (handleSpeed s) = currentLevel s"
  "levelDistance (handleSpeed s) = levelDistance s" "score (handleSpeed s) = score s"
  "distance (handleSpeed s) = distance s" "planeRotation (handleSpeed s) = planeRotation s"
  "planePosition (handleSpeed s) = planePosition s" "cameraAngle (handleSpeed s) = cameraAngle s"
  "firstPersonView (handleSpeed s) = firstPersonView s"
  "plane_position (handleSpeed s) = plane_position s"
  "plane_rotation (handleSpeed s) = plane_rotation s"
  "plane_visible (handleSpeed s) = plane_visible s"
  "restartBtn_textContent (handleSpeed s) = restartBtn_textContent s"
  "gameOverTitle_textContent (handleSpeed s) = gameOverTitle_textContent s"
  "pendingLoads (handleSpeed s) = pendingLoads s"
  "pendingTimers (handleSpeed s) = pendingTimers s"
  by (simp_all add: handleSpeed_def Let_def)

lemma handleSteering_frame [simp]:
  "pillars (handleSteering s) = pillars s" "barriers (handleSteering s) = barriers s"
  "goldenRing (handleSteering s) = goldenRing s" "keys (handleSteering s) = keys s"
  "gameStarted (handleSteering s) = gameStarted s" "gameOver (handleSteering s) = gameOver s"
  "LEVELS (handleSteering s) = LEVELS s" "currentLevel (handleSteering s) = currentLevel s"
  "levelDistance (handleSteering s) = levelDistance s" "speed (handleSteering s) = speed s"
  "score (handleSteering s) = score s" "distance (handleSteering s) = distance s"
  "cameraAngle (handleSteering s) = cameraAngle s"
  "firstPersonView (handleSteering s) = firstPersonView s"
  "plane_position (handleSteering s) = plane_position s"
  "plane_rotation (handleSteering s) = plane_rotation s"
  "plane_visible (handleSteering s) = plane_visible s"
  "restartBtn_textContent (handleSteering s) = restartBtn_textContent s"
  "gameOverTitle_textContent (handleSteering s) = gameOverTitle_textContent s"
  "pendingLoads (handleSteering s) = pendingLoads s"
  "pendingTimers (handleSteering s) = pendingTimers s"
  "Y (planePosition (handleSteering s)) = Y (planePosition s)"
  "Z (planePosition (handleSteering s)) = Z (planePosition s)"
  "X (planeRotation (handleSteering s)) = X (planeRotation s)"
  "Y (planeRotation (handleSteering s)) = Y (planeRotation s)"
  by (simp_all add: handleSteering_def)

lemma handlePitch_frame [simp]:
  "pillars (handlePitch s) = pillars s" "barriers (handlePitch s) = barriers s"
  "goldenRing (handlePitch s) = goldenRing s" "keys (handlePitch s) = keys s"
  "gameStarted (handlePitch s) = gameStarted s" "gameOver (handlePitch s) = gameOver s"
  "LEVELS (handlePitch s) = LEVELS s" "currentLevel (handlePitch s) = currentLevel s"
  "levelDistance (handlePitch s) = levelDistance s" "speed (handlePitch s) = speed s"
  "score (handlePitch s) = score s" "distance (handlePitch s) = distance s"
  "cameraAngle (handlePitch s) = cameraAngle s"
  "firstPersonView (handlePitch s) = firstPersonView s"
  "plane_position (handlePitch s) = plane_position s"
  "plane_rotation (handlePitch s) = plane_rotation s"
  "plane_visible (handlePitch s) = plane_visible s"
  "restartBtn_textContent (handlePitch s) = restartBtn_textContent s"
  "gameOverTitle_textContent (handlePitch s) = gameOverTitle_textContent s"
  "pendingLoads (handlePitch s) = pendingLoads s"
  "pendingTimers (handlePitch s) = pendingTimers s"
  "X (planePosition (handlePitch s)) = X (planePosition s)"
  "Z (planePosition (handlePitch s)) = Z (planePosition s)"
  "Z (planeRotation (handlePitch s)) = Z (planeRotation s)"
  "Y (planeRotation (handlePitch s)) = Y (planeRotation s)"
  by (simp_all add: handlePitch_def)

lemma handleCamera_frame [simp]:
  "pillars (handleCamera s) = pillars s" "barriers (handleCamera s) = barriers s"
  "goldenRing (handleCamera s) = goldenRing s" "keys (handleCamera s) = keys s"
  "gameStarted (handleCamera s) = gameStarted s" "gameOver (handleCamera s) = gameOver s"
  "LEVELS (handleCamera s) = LEVELS s" "currentLevel (handleCamera s) = currentLevel s"
  "levelDistance (handleCamera s) = levelDistance s" "speed (handleCamera s) = speed s"
  "score (handleCamera s) = score s" "distance (handleCamera s) = distance s"
  "planeRotation (handleCamera s) = planeRotation s"
  "planePosition (handleCamera s) = planePosition s"
  "firstPersonView (handleCamera s) = firstPersonView s"
  "plane_position (handleCamera s) = plane_position s"
  "plane_rotation (handleCamera s) = plane_rotation s"
  "plane_visible (handleCamera s) = plane_visible s"
  "restartBtn_textContent (handleCamera s) = restartBtn_textContent s"
  "gameOverTitle_textContent (handleCamera s) = gameOverTitle_textContent s"
  "pendingLoads (handleCamera s) = pendingLoads s"
  "pendingTimers (handleCamera s) = pendingTimers s"
  by (simp_all add: handleCamera_def)

lemma syncPlane_frame [simp]:
  "pillars (syncPlane s) = pillars s" "barriers (syncPlane s) = barriers s"
  "goldenRing (syncPlane s) = goldenRing s" "keys (syncPlane s) = keys s"
  "gameStarted (syncPlane s) = gameStarted s" "gameOver (syncPlane s) = gameOver s"
  "LEVELS (syncPlane s) = LEVELS s" "currentLevel (syncPlane s) = currentLevel s"
  "levelDistance (syncPlane s) = levelDistance s" "speed (syncPlane s) = speed s"
  "score (syncPlane s) = score s" "distance (syncPlane s) = distance s"
  "planeRotation (syncPlane s) = planeRotation s" "planePosition (syncPlane s) = planePosition s"
  "cameraAngle (syncPlane s) = cameraAngle s" "firstPersonView (syncPlane s) = firstPersonView s"
  "plane_visible (syncPlane s) = plane_visible s"
  "restartBtn_textContent (syncPlane s) = restartBtn_textContent s"
  "gameOverTitle_textContent (syncPlane s) = gameOverTitle_textContent s"
  "pendingLoads (syncPlane s) = pendingLoads s" "pendingTimers (syncPlane s) = pendingTimers s"
  "X (plane_position (syncPlane s)) = X (planePosition s)"
  "Y (plane_position (syncPlane s)) = Y (planePosition s)"
  "Z (plane_position (syncPlane s)) = Z (plane_position s)"
  "X (plane_rotation (syncPlane s)) = X (planeRotation s)"
  "Z (plane_rotation (syncPlane s)) = Z (planeRotation s)"
  "Y (plane_rotation (syncPlane s)) = Y (plane_rotation s)"
  by (simp_all add: syncPlane_def)

lemma moveForward_frame [simp]:
  "pillars (moveForward s) = pillars s" "barriers (moveForward s) = barriers s"
  "goldenRing (moveForward s) = goldenRing s" "keys (moveForward s) = keys s"
  "gameStarted (moveForward s) = gameStarted s" "gameOver (moveForward s) = gameOver s"
  "LEVELS (moveForward s) = LEVELS s" "currentLevel (moveForward s) = currentLevel s"
  "levelDistance (moveForward s) = levelDistance s" "speed (moveForward s) = speed s"
  "score (moveForward s) = score s" "planeRotation (moveForward s) = planeRotation s"
  "cameraAngle (moveForward s) = cameraAngle s"
  "firstPersonView (moveForward s) = firstPersonView s"
  "plane_rotation (moveForward s) = plane_rotation s"
  "plane_visible (moveForward s) = plane_visible s"
  "restartBtn_textContent (moveForward s) = restartBtn_textContent s"
  "gameOverTitle_textContent (moveForward s) = gameOverTitle_textContent s"
  "pendingLoads (moveForward s) = pendingLoads s"
  "pendingTimers (moveForward s) = pendingTimers s"
  "X (planePosition (moveForward s)) = X (planePosition s)"
  "Y (planePosition (moveForward s)) = Y (planePosition s)"
  "Z (planePosition (moveForward s)) = Z (planePosition s) + speed s"
  "X (plane_position (moveForward s)) = X (plane_position s)"
  "Y (plane_position (moveForward s)) = Y (plane_position s)"
  "Z (plane_position (moveForward s)) = Z (planePosition s) + speed s"
  "distance (moveForward s) = distance s + speed s"
  by (simp_all add: moveForward_def Let_def)

lemma markPassed_frame [simp]:
  "barriers (markPassed s) = barriers s" "goldenRing (markPassed s) = goldenRing s"
  "keys (markPassed s) = keys s" "gameStarted (markPassed s) = gameStarted s"
  "gameOver (markPassed s) = gameOver s" "LEVELS (markPassed s) = LEVELS s"
  "currentLevel (markPassed s) = currentLevel s" "levelDistance (markPassed s) = levelDistance s"
  "speed (markPassed s) = speed s" "distance (markPassed s) = distance s"
  "planeRotation (markPassed s) = planeRotation s"
  "planePosition (markPassed s) = planePosition s" "cameraAngle (markPassed s) = cameraAngle s"
  "firstPersonView (markPassed s) = firstPersonView s"
  "plane_position (markPassed s) = plane_position s"
  "plane_rotation (markPassed s) = plane_rotation s"
  "plane_visible (markPassed s) = plane_visible s"
  "restartBtn_textContent (markPassed s) = restartBtn_textContent s"
  "gameOverTitle_textContent (markPassed s) = gameOverTitle_textContent s"
  "pendingLoads (markPassed s) = pendingLoads s" "pendingTimers (markPassed s) = pendingTimers s"
  "pillars (markPassed s) = fst (scorePass (Z (plane_position s)) (pillars s) (score s))"
  "score (markPassed s) = snd (scorePass (Z (plane_position s)) (pillars s) (score s))"
  by (simp_all add: markPassed_def split: prod.splits)

lemma checkPillars_frame [simp]:
  "pillars (checkPillars s) = pillars s" "barriers (checkPillars s) = barriers s"
  "goldenRing (checkPillars s) = goldenRing s" "keys (checkPillars s) = keys s"
  "LEVELS (checkPillars s) = LEVELS s" "currentLevel (checkPillars s) = currentLevel s"
  "levelDistance (checkPillars s) = levelDistance s" "speed (checkPillars s) = speed s"
  "score (checkPillars s) = score s" "distance (checkPillars s) = distance s"
  "planeRotation (checkPillars s) = planeRotation s"
  "planePosition (checkPillars s) = planePosition s"
  "cameraAngle (checkPillars s) = cameraAngle s"
  "firstPersonView (checkPillars s) = firstPersonView s"
  "plane_position (checkPillars s) = plane_position s"
  "plane_rotation (checkPillars s) = plane_rotation s"
  "plane_visible (checkPillars s) = plane_visible s"
  "pendingLoads (checkPillars s) = pendingLoads s"
  "pendingTimers (checkPillars s) = pendingTimers s"
  by (simp_all add: checkPillars_eq)

lemma constrainBarriers_frame [simp]:
  "pillars (constrainBarriers s) = pillars s" "barriers (constrainBarriers s) = barriers s"
  "goldenRing (constrainBarriers s) = goldenRing s" "keys (constrainBarriers s) = keys s"
  "gameStarted (constrainBarriers s) = gameStarted s"
  "gameOver (constrainBarriers s) = gameOver s" "LEVELS (constrainBarriers s) = LEVELS s"
  "currentLevel (constrainBarriers s) = currentLevel s"
  "levelDistance (constrainBarriers s) = levelDistance s" "speed (constrainBarriers s) = speed s"
  "score (constrainBarriers s) = score s" "distance (constrainBarriers s) = distance s"
  "planeRotation (constrainBarriers s) = planeRotation s"
  "cameraAngle (constrainBarriers s) = cameraAngle s"
  "firstPersonView (constrainBarriers s) = firstPersonView s"
  "plane_rotation (constrainBarriers s) = plane_rotation s"
  "plane_visible (constrainBarriers s) = plane_visible s"
  "restartBtn_textContent (constrainBarriers s) = restartBtn_textContent s"
  "gameOverTitle_textContent (constrainBarriers s) = gameOverTitle_textContent s"
  "pendingLoads (constrainBarriers s) = pendingLoads s"
  "pendingTimers (constrainBarriers s) = pendingTimers s"
  "Y (planePosition (constrainBarriers s)) = Y (planePosition s)"
  "Z (planePosition (constrainBarriers s)) = Z (planePosition s)"
  "Y (plane_position (constrainBarriers s)) = Y (plane_position s)"
  "Z (plane_position (constrainBarriers s)) = Z (plane_position s)"
  by (simp_all add: constrainBarriers_def Let_def)

lemma checkGround_frame [simp]:
  "pillars (checkGround s) = pillars s" "barriers (checkGround s) = barriers s"
  "goldenRing (checkGround s) = goldenRing s" "keys (checkGround s) = keys s"
  "LEVELS (checkGround s) = LEVELS s" "currentLevel (checkGround s) = currentLevel s"
  "levelDistance (checkGround s) = levelDistance s" "speed (checkGround s) = speed s"
  "score (checkGround s) = score s" "distance (checkGround s) = distance s"
  "planeRotation (checkGround s) = planeRotation s"
  "planePosition (checkGround s) = planePosition s" "cameraAngle (checkGround s) = cameraAngle s"
  "firstPersonView (checkGround s) = firstPersonView s"
  "plane_position (checkGround s) = plane_position s"
  "plane_rotation (checkGround s) = plane_rotation s"
  "plane_visible (checkGround s) = plane_visible s"
  "pendingLoads (checkGround s) = pendingLoads s"
  "pendingTimers (checkGround s) = pendingTimers s"
  by (simp_all add: checkGround_def)

lemma checkCollisions_frame [simp]:
  "pillars (checkCollisions s) = pillars s" "barriers (checkCollisions s) = barriers s"
  "goldenRing (checkCollisions s) = goldenRing s" "keys (checkCollisions s) = keys s"
  "LEVELS (checkCollisions s) = LEVELS s" "currentLevel (checkCollisions s) = currentLevel s"
  "levelDistance (checkCollisions s) = levelDistance s" "speed (checkCollisions s) = speed s"
  "score (checkCollisions s) = score s" "distance (checkCollisions s) = distance s"
  "planeRotation (checkCollisions s) = planeRotation s"
  "cameraAngle (checkCollisions s) = cameraAngle s"
  "firstPersonView (checkCollisions s) = firstPersonView s"
  "plane_rotation (checkCollisions s) = plane_rotation s"
  "plane_visible (checkCollisions s) = plane_visible s"
  "pendingLoads (checkCollisions s) = pendingLoads s"
  "pendingTimers (checkCollisions s) = pendingTimers s"
  "Y (planePosition (checkCollisions s)) = Y (planePosition s)"
  "Z (planePosition (checkCollisions s)) = Z (planePosition s)"
  "Y (plane_position (checkCollisions s)) = Y (plane_position s)"
  "Z (plane_position (checkCollisions s)) = Z (plane_position s)"
  by (simp_all add: checkCollisions_def)

lemma checkCollisions_game_js_frame [simp]:
  "pillars (checkCollisions_game_js s) = pillars s"
  "barriers (checkCollisions_game_js s) = barriers s"
  "goldenRing (checkCollisions_game_js s) = goldenRing s"
  "keys (checkCollisions_game_js s) = keys s" "LEVELS (checkCollisions_game_js s) = LEVELS s"
  "currentLevel (checkCollisions_game_js s) = currentLevel s"
  "levelDistance (checkCollisions_game_js s) = levelDistance s"
  "speed (checkCollisions_game_js s) = speed s" "score (checkCollisions_game_js s) = score s"
  "distance (checkCollisions_game_js s) = distance s"
  "planeRotation (checkCollisions_game_js s) = planeRotation s"
  "planePosition (checkCollisions_game_js s) = planePosition s"
  "cameraAngle (checkCollisions_game_js s) = cameraAngle s"
  "firstPersonView (checkCollisions_game_js s) = firstPersonView s"
  "plane_position (checkCollisions_game_js s) = plane_position s"
  "plane_rotation (checkCollisions_game_js s) = plane_rotation s"
  "plane_visible (checkCollisions_game_js s) = plane_visible s"
  "pendingLoads (checkCollisions_game_js s) = pendingLoads s"
  "pendingTimers (checkCollisions_game_js s) = pendingTimers s"
  by (simp_all add: checkCollisions_game_js_def)

lemma generateMore_frame [simp]:
  "barriers (generateMore rnd s) = barriers s" "goldenRing (generateMore rnd s) = goldenRing s"
  "keys (generateMore rnd s) = keys s" "gameStarted (generateMore rnd s) = gameStarted s"
  "gameOver (generateMore rnd s) = gameOver s" "LEVELS (generateMore rnd s) = LEVELS s"
  "currentLevel (generateMore rnd s) = currentLevel s"
  "levelDistance (generateMore rnd s) = levelDistance s" "speed (generateMore rnd s) = speed s"
  "score (generateMore rnd s) = score s" "distance (generateMore rnd s) = distance s"
  "planeRotation (generateMore rnd s) = planeRotation s"
  "planePosition (generateMore rnd s) = planePosition s"
  "cameraAngle (generateMore rnd s) = cameraAngle s"
  "firstPersonView (generateMore rnd s) = firstPersonView s"
  "plane_position (generateMore rnd s) = plane_position s"
  "plane_rotation (generateMore rnd s) = plane_rotation s"
  "plane_visible (generateMore rnd s) = plane_visible s"
  "restartBtn_textContent (generateMore rnd s) = restartBtn_textContent s"
  "gameOverTitle_textContent (generateMore rnd s) = gameOverTitle_textContent s"
  "pendingLoads (generateMore rnd s) = pendingLoads s"
  "pendingTimers (generateMore rnd s) = pendingTimers s"
  by (simp_all add: generateMore_def Let_def)

lemma removeFarBehind_frame [simp]:
  "barriers (removeFarBehind s) = barriers s" "goldenRing (removeFarBehind s) = goldenRing s"
  "keys (removeFarBehind s) = keys s" "gameStarted (removeFarBehind s) = gameStarted s"
  "gameOver (removeFarBehind s) = gameOver s" "LEVELS (removeFarBehind s) = LEVELS s"
  "currentLevel (removeFarBehind s) = currentLevel s"
  "levelDistance (removeFarBehind s) = levelDistance s" "speed (removeFarBehind s) = speed s"
  "score (removeFarBehind s) = score s" "distance (removeFarBehind s) = distance s"
  "planeRotation (removeFarBehind s) = planeRotation s"
  "planePosition (removeFarBehind s) = planePosition s"
  "cameraAngle (removeFarBehind s) = cameraAngle s"
  "firstPersonView (removeFarBehind s) = firstPersonView s"
  "plane_position (removeFarBehind s) = plane_position s"
  "plane_rotation (removeFarBehind s) = plane_rotation s"
  "plane_visible (removeFarBehind s) = plane_visible s"
  "restartBtn_textContent (removeFarBehind s) = restartBtn_textContent s"
  "gameOverTitle_textContent (removeFarBehind s) = gameOverTitle_textContent s"
  "pendingLoads (removeFarBehind s) = pendingLoads s"
  "pendingTimers (removeFarBehind s) = pendingTimers s"
  by (simp_all add: removeFarBehind_def)

lemma ringCheck_completeLevel_frame [simp]:
  "pillars (ringCheck completeLevel s) = pillars s"
  "barriers (ringCheck completeLevel s) = barriers s"
  "goldenRing (ringCheck completeLevel s) = goldenRing s"
  "keys (ringCheck completeLevel s) = keys s"
  "currentLevel (ringCheck completeLevel s) = currentLevel s"
  "levelDistance (ringCheck completeLevel s) = levelDistance s"
  "speed (ringCheck completeLevel s) = speed s" "score (ringCheck completeLevel s) = score s"
  "distance (ringCheck completeLevel s) = distance s"
  "planeRotation (ringCheck completeLevel s) = planeRotation s"
  "planePosition (ringCheck completeLevel s) = planePosition s"
  "cameraAngle (ringCheck completeLevel s) = cameraAngle s"
  "firstPersonView (ringCheck completeLevel s) = firstPersonView s"
  "plane_position (ringCheck completeLevel s) = plane_position s"
  "plane_rotation (ringCheck completeLevel s) = plane_rotation s"
  "plane_visible (ringCheck completeLevel s) = plane_visible s"
  "pendingLoads (ringCheck completeLevel s) = pendingLoads s"
  "pendingTimers (ringCheck completeLevel s) = pendingTimers s"
  by (simp_all add: ringCheck_def Let_def split: option.splits)

lemma ringCheck_completeLevel_game_js_frame [simp]:
  "pillars (ringCheck completeLevel_game_js s) = pillars s"
  "barriers (ringCheck completeLevel_game_js s) = barriers s"
  "goldenRing (ringCheck completeLevel_game_js s) = goldenRing s"
  "keys (ringCheck completeLevel_game_js s) = keys s"
  "currentLevel (ringCheck completeLevel_game_js s) = currentLevel s"
  "levelDistance (ringCheck completeLevel_game_js s) = levelDistance s"
  "speed (ringCheck completeLevel_game_js s) = speed s"
  "score (ringCheck completeLevel_game_js s) = score s"
  "distance (ringCheck completeLevel_game_js s) = distance s"
  "planeRotation (ringCheck completeLevel_game_js s) = planeRotation s"
  "planePosition (ringCheck completeLevel_game_js s) = planePosition s"
  "cameraAngle (ringCheck completeLevel_game_js s) = cameraAngle s"
  "firstPersonView (ringCheck completeLevel_game_js s) = firstPersonView s"
  "plane_position (ringCheck completeLevel_game_js s) = plane_position s"
  "plane_rotation (ringCheck completeLevel_game_js s) = plane_rotation s"
  "plane_visible (ringCheck completeLevel_game_js s) = plane_visible s"
  "pendingLoads (ringCheck completeLevel_game_js s) = pendingLoads s"
  by (simp_all add: ringCheck_def Let_def split: option.splits)

lemma passedRingCheck_frame [simp]:
  "pillars (passedRingCheck s) = pillars s" "barriers (passedRingCheck s) = barriers s"
  "goldenRing (passedRingCheck s) = goldenRing s" "keys (passedRingCheck s) = keys s"
  "LEVELS (passedRingCheck s) = LEVELS s" "currentLevel (passedRingCheck s) = currentLevel s"
  "levelDistance (passedRingCheck s) = levelDistance s" "speed (passedRingCheck s) = speed s"
  "score (passedRingCheck s) = score s" "distance (passedRingCheck s) = distance s"
  "planeRotation (passedRingCheck s) = planeRotation s"
  "planePosition (passedRingCheck s) = planePosition s"
  "cameraAngle (passedRingCheck s) = cameraAngle s"
  "firstPersonView (passedRingCheck s) = firstPersonView s"
  "plane_position (passedRingCheck s) = plane_position s"
  "plane_rotation (passedRingCheck s) = plane_rotation s"
  "plane_visible (passedRingCheck s) = plane_visible s"
  "pendingLoads (passedRingCheck s) = pendingLoads s"
  "pendingTimers (passedRingCheck s) = pendingTimers s"
  by (simp_all add: passedRingCheck_def split: option.splits)

subsection \<open>Runs and what a tick does to single fields\<close>

lemma run_invariant:
  assumes "P s" and "\<And>e t. P t \<Longrightarrow> P (step e t)"
  shows "P (run evs s)"
proof -
  have "P (foldl (\<lambda>t e. step e t) s evs)"
    using assms(1)
  proof (induction evs arbitrary: s)
    case Nil
    then show ?case by simp
  next
    case (Cons e evs)
    then show ?case by (simp add: assms(2))
  qed
  then show ?thesis by (simp add: run_def)
qed

lemma update_speed:
  "speed (update rnd s) =
     (if gameStarted s \<and> \<not> gameOver s then speed (handleSpeed s) else speed s)"
  "speed (update_game_js rnd s) =
     (if gameStarted s \<and> \<not> gameOver s then speed (handleSpeed s) else speed s)"
  by (simp_all add: update_def update_game_js_def update_with_def kinematics_def)

lemma update_planeRotation:
  "planeRotation (update rnd s) =
     (if gameStarted s \<and> \<not> gameOver s
      then planeRotation (handlePitch (handleSteering (handleSpeed s)))
      else planeRotation s)"
  "planeRotation (update_game_js rnd s) =
     (if gameStarted s \<and> \<not> gameOver s
      then planeRotation (handlePitch (handleSteering (handleSpeed s)))
      else planeRotation s)"
  by (simp_all add: update_def update_game_js_def update_with_def kinematics_def)

section \<open>The movement envelope\<close>

lemma handleSpeed_bounds:
  assumes "MIN_SPEED \<le> speed s" "speed s \<le> MAX_SPEED"
  shows "MIN_SPEED \<le> speed (handleSpeed s) \<and> speed (handleSpeed s) \<le> MAX_SPEED"
  using assms
  by (auto simp add: handleSpeed_def Let_def MIN_SPEED_def MAX_SPEED_def min_def max_def)

lemma handleSteering_roll:
  assumes "- 0.3 \<le> Z (planeRotation s)" "Z (planeRotation s) \<le> 0.3"
  shows "- 0.3 \<le> Z (planeRotation (handleSteering s)) \<and>
         Z (planeRotation (handleSteering s)) \<le> 0.3"
  using assms by (auto simp add: handleSteering_def min_def max_def)

lemma handlePitch_pitch:
  assumes "- 0.3 \<le> X (planeRotation s)" "X (planeRotation s) \<le> 0.3"
  shows "- 0.3 \<le> X (planeRotation (handlePitch s)) \<and>
         X (planeRotation (handlePitch s)) \<le> 0.3"
  using assms by (auto simp add: handlePitch_def min_def max_def)

lemma update_envelope:
  assumes env: "kinematic_envelope s"
  shows "kinematic_envelope (update rnd s)" and "kinematic_envelope (update_game_js rnd s)"
proof -
  let ?a = "handleSpeed s"
  let ?b = "handleSteering ?a"
  have sp: "MIN_SPEED \<le> speed ?a \<and> speed ?a \<le> MAX_SPEED"
    using env handleSpeed_bounds by (simp add: kinematic_envelope_def)
  have roll: "- 0.3 \<le> Z (planeRotation ?b) \<and> Z (planeRotation ?b) \<le> 0.3"
    using env handleSteering_roll [of ?a] by (simp add: kinematic_envelope_def)
  have "- 0.3 \<le> X (planeRotation ?b) \<and> X (planeRotation ?b) \<le> 0.3"
    using env by (simp add: kinematic_envelope_def)
  then have pitch:
    "- 0.3 \<le> X (planeRotation (handlePitch ?b)) \<and> X (planeRotation (handlePitch ?b)) \<le> 0.3"
    using handlePitch_pitch [of ?b] by simp
  show "kinematic_envelope (update rnd s)"
    using env sp roll pitch
    by (simp add: kinematic_envelope_def update_speed update_planeRotation)
  show "kinematic_envelope (update_game_js rnd s)"
    using env sp roll pitch
    by (simp add: kinematic_envelope_def update_speed update_planeRotation)
qed

lemma step_envelope: "kinematic_envelope s \<Longrightarrow> kinematic_envelope (step e s)"
proof (cases e)
  case (Tick rnd)
  assume "kinematic_envelope s"
  then show ?thesis using Tick by (simp add: update_envelope)
next
  case (ClickLevel n)
  assume "kinematic_envelope s"
  then show ?thesis using ClickLevel
    by (auto simp: kinematic_envelope_def selectLevel_def selectLevel_with_def loadTowerModel_def
        Let_def split: sum.splits if_splits)
qed (simp_all add: kinematic_envelope_def onKeyDown_def onKeyUp_def startGame_def restartGame_def
      resetSession_def returnToMainMenu_def loadTowerModel_def towerLoaded_def towerLoadError_def
      generatePillars_def createBarriers_def createGoldenRing_def Let_def
      INITIAL_SPEED_def MIN_SPEED_def MAX_SPEED_def)

text \<open>
  Claim C5. Whatever keys are held (they are part of the state \<open>s\<close>), a tick keeps the speed
  in \<open>[MIN_SPEED, MAX_SPEED] = [0.1, 5]\<close> and the pitch and roll angles in \<open>[-0.3, 0.3]\<close>, in
  both files; and the bounds hold in every state that the handlers and ticks can reach from
  the start of the script.
\<close>

theorem tick_keeps_kinematic_envelope:
  "(kinematic_envelope s \<longrightarrow> kinematic_envelope (update rnd s)) \<and>
   (kinematic_envelope s \<longrightarrow> kinematic_envelope (update_game_js rnd s)) \<and>
   kinematic_envelope (run evs (init (initial btn title))) \<and>
   MIN_SPEED = 0.1 \<and> MAX_SPEED = 5"
proof (intro conjI)
  show "kinematic_envelope s \<longrightarrow> kinematic_envelope (update rnd s)"
    by (simp add: update_envelope)
  show "kinematic_envelope s \<longrightarrow> kinematic_envelope (update_game_js rnd s)"
    by (simp add: update_envelope)
  have "kinematic_envelope (init (initial btn title))"
    by (simp add: kinematic_envelope_def init_def initial_def loadTowerModel_def
        INITIAL_SPEED_def MIN_SPEED_def MAX_SPEED_def)
  then show "kinematic_envelope (run evs (init (initial btn title)))"
    by (rule run_invariant) (rule step_envelope)
  show "MIN_SPEED = 0.1" by (simp add: MIN_SPEED_def)
  show "MAX_SPEED = 5" by (simp add: MAX_SPEED_def)
qed

theorem tick_keeps_kinematic_envelope_witness:
  "kinematic_envelope ((startGame (initial [] []))\<lparr>keys := holding [''w'', ''d'', ''arrowup'']\<rparr>) \<and>
   kinematic_envelope
     (update (always 0) ((startGame (initial [] []))\<lparr>keys := holding [''w'', ''d'', ''arrowup'']\<rparr>))"
proof -
  let ?s = "(startGame (initial [] []))\<lparr>keys := holding [''w'', ''d'', ''arrowup'']\<rparr>"
  have h: "kinematic_envelope ?s"
    by (simp add: kinematic_envelope_def startGame_def initial_def INITIAL_SPEED_def
        MIN_SPEED_def MAX_SPEED_def)
  from tick_keeps_kinematic_envelope [of ?s "always 0" "[]" "[]" "[]"] h
  show ?thesis by blast
qed

subsection \<open>Evaluating the model on concrete states\<close>

lemmas eval_defs =
  update_def update_game_js_def update_with_def kinematics_def handleSpeed_def
  handleSteering_def handlePitch_def handleCamera_def syncPlane_def moveForward_def
  markPassed_def checkCollisions_def checkCollisions_game_js_def checkPillars_def planeBox_def
  pillarBox_def collision_def constrainBarriers_def checkGround_def generateMore_def
  furthestPillar_def rowsFrom.simps spawnRow_def createPillar_def removeFarBehind_def
  splice1_def ringCheck_def passedRingCheck_def endGame_def completeLevel_def
  completeLevel_game_js_def holding_def always_def Let_def phase_of_def run_def
  MAX_SPEED_def MIN_SPEED_def PILLAR_SPACING_def PILLAR_WIDTH_def PILLAR_HEIGHT_def
  BARRIER_X_LIMIT_def PLANE_HALF_WIDTH_def INITIAL_SPEED_def
  startGame_def onKeyDown_def onKeyUp_def init_def initial_def loadTowerModel_def
  LEVELS_initial_def PLANE_PERMANENT_ROTATION_def

lemma phase_Playing: "phase_of s = Playing \<longleftrightarrow> gameStarted s \<and> \<not> gameOver s"
  by (simp add: phase_of_def)

lemma update_keys: "keys (update rnd s) = keys s" "keys (update_game_js rnd s) = keys s"
  by (simp_all add: update_def update_game_js_def update_with_def kinematics_def)

lemma speed_handleSpeed:
  "speed (handleSpeed s) =
     (if keys s ''w'' \<and> \<not> keys s ''s'' then min (speed s + 0.01) MAX_SPEED
      else if keys s ''s'' \<and> \<not> keys s ''w'' then max (speed s - 0.01) MIN_SPEED
      else if \<not> keys s ''w'' \<and> \<not> keys s ''s'' then speed s
      else max (min (speed s + 0.01) MAX_SPEED - 0.01) MIN_SPEED)"
  by (simp add: handleSpeed_def Let_def)

lemma update_positions:
  "gameStarted s \<and> \<not> gameOver s \<Longrightarrow>
     planePosition (update rnd s) = planePosition (constrainBarriers (checkPillars (kinematics s))) \<and>
     plane_position (update rnd s) = plane_position (constrainBarriers (checkPillars (kinematics s)))"
  by (simp add: update_def update_with_def checkCollisions_def)

lemma kinematics_X_sync: "X (plane_position (kinematics s)) = X (planePosition (kinematics s))"
  by (simp add: kinematics_def)

section \<open>Altitude\<close>

lemma update_planePosition_Y:
  "Y (planePosition (update rnd s)) =
     (if gameStarted s \<and> \<not> gameOver s then
        (if keys s ''arrowup'' then max (Y (planePosition s) - 0.1) 1
         else if keys s ''arrowdown'' then min (Y (planePosition s) + 0.1) 15
         else Y (planePosition s))
      else Y (planePosition s))"
  "Y (planePosition (update_game_js rnd s)) =
     (if gameStarted s \<and> \<not> gameOver s then
        (if keys s ''arrowup'' then max (Y (planePosition s) - 0.1) 1
         else if keys s ''arrowdown'' then min (Y (planePosition s) + 0.1) 15
         else Y (planePosition s))
      else Y (planePosition s))"
  by (simp_all add: update_def update_game_js_def update_with_def kinematics_def handlePitch_def)

lemma kinematics_plane_Y:
  "Y (plane_position (kinematics s)) =
     (if keys s ''arrowup'' then max (Y (planePosition s) - 0.1) 1
      else if keys s ''arrowdown'' then min (Y (planePosition s) + 0.1) 15
      else Y (planePosition s))"
  by (simp add: kinematics_def handlePitch_def)

lemma update_altitude:
  "altitude_ok s \<Longrightarrow> altitude_ok (update rnd s)"
  "altitude_ok s \<Longrightarrow> altitude_ok (update_game_js rnd s)"
  by (auto simp add: altitude_ok_def update_planePosition_Y min_def max_def)

lemma step_altitude: "altitude_ok s \<Longrightarrow> altitude_ok (step e s)"
proof (cases e)
  case (Tick rnd)
  assume "altitude_ok s"
  then show ?thesis using Tick by (simp add: update_altitude)
next
  case (ClickLevel n)
  assume "altitude_ok s"
  then show ?thesis using ClickLevel
    by (auto simp: altitude_ok_def selectLevel_def selectLevel_with_def loadTowerModel_def
        Let_def split: sum.splits if_splits)
qed (simp_all add: altitude_ok_def onKeyDown_def onKeyUp_def startGame_def restartGame_def
      resetSession_def returnToMainMenu_def loadTowerModel_def towerLoaded_def towerLoadError_def
      generatePillars_def createBarriers_def createGoldenRing_def Let_def)

text \<open>
  Claim C10. In a tick in Playing the height \<open>y\<close> becomes \<open>max (y - 0.1) 1\<close> with the up
  arrow held, \<open>min (y + 0.1) 15\<close> with the down arrow held (and the up arrow not), and is
  unchanged otherwise, in both files. So a height in \<open>[1, 15]\<close> stays there; it is in
  \<open>[1, 15]\<close> in every state reachable from the start of the script, where \<open>y = 5\<close>; and
  when the height is in the band, the test \<^verbatim>\<open>plane.position.y < 0.5\<close> of the ground
  check is false on the state that reaches it (with or without the barrier block).
\<close>

theorem altitude_stays_in_band:
  "Y (planePosition (update rnd s)) =
     (if gameStarted s \<and> \<not> gameOver s then
        (if keys s ''arrowup'' then max (Y (planePosition s) - 0.1) 1
         else if keys s ''arrowdown'' then min (Y (planePosition s) + 0.1) 15
         else Y (planePosition s))
      else Y (planePosition s)) \<and>
   Y (planePosition (update_game_js rnd s)) = Y (planePosition (update rnd s)) \<and>
   (altitude_ok s \<longrightarrow> altitude_ok (update rnd s) \<and> altitude_ok (update_game_js rnd s)) \<and>
   (altitude_ok s \<longrightarrow>
      \<not> Y (plane_position (constrainBarriers (checkPillars (kinematics s)))) < 0.5 \<and>
      \<not> Y (plane_position (checkPillars (kinematics s))) < 0.5) \<and>
   altitude_ok (run evs (init (initial btn title))) \<and>
   Y (planePosition (initial btn title)) = 5"
proof (intro conjI)
  show "altitude_ok (run evs (init (initial btn title)))"
  proof (rule run_invariant)
    show "altitude_ok (init (initial btn title))"
      by (simp add: altitude_ok_def init_def initial_def loadTowerModel_def)
  qed (rule step_altitude)
  show "altitude_ok s \<longrightarrow>
      \<not> Y (plane_position (constrainBarriers (checkPillars (kinematics s)))) < 0.5 \<and>
      \<not> Y (plane_position (checkPillars (kinematics s))) < 0.5"
    by (auto simp add: altitude_ok_def kinematics_plane_Y min_def max_def)
qed (simp_all add: update_planePosition_Y update_altitude initial_def)

theorem altitude_stays_in_band_witness:
  "altitude_ok climbing_state \<and>
   altitude_ok (update (always 0) climbing_state) \<and>
   Y (planePosition (update (always 0) climbing_state)) = 4.9 \<and>
   \<not> Y (plane_position (constrainBarriers (checkPillars (kinematics climbing_state)))) < 0.5"
proof -
  have h: "altitude_ok climbing_state"
    by (simp add: altitude_ok_def climbing_state_def eval_defs)
  have k: "keys climbing_state ''arrowup''" "gameStarted climbing_state"
    "\<not> gameOver climbing_state" "Y (planePosition climbing_state) = 5"
    by (simp_all add: climbing_state_def eval_defs)
  from altitude_stays_in_band [of "always 0" climbing_state "[]" "[]" "[]"] h k
  show ?thesis by simp
qed

section \<open>Level selection\<close>

text \<open>
  Claim C9. For a level number \<open>n\<close> in range: with lock mode on (as the script sets it),
  selecting a locked level returns the "locked" alert and the state unchanged, in both
  files, so the event changes nothing; selecting an unlocked level gives a state in Playing
  with \<open>currentLevel = n\<close> and \<open>levelDistance\<close> the distance configured for level \<open>n\<close>
  (in \<^verbatim>\<open>game.js\<close>, when selected from the menu).
\<close>

theorem select_level_locked_or_started:
  assumes "1 \<le> n" and "n \<le> int (length (LEVELS s))"
  shows
   "(lock \<and> \<not> unlocked (LEVELS s ! nat (n - 1)) \<longrightarrow>
       selectLevel_with lock n s = Inr (Some (LevelLocked n), s)) \<and>
    (\<not> unlocked (LEVELS s ! nat (n - 1)) \<longrightarrow>
       selectLevel n s = Inr (Some (LevelLocked n), s) \<and>
       selectLevel_game_js n s = Inr (Some (LevelLocked n), s) \<and>
       step (ClickLevel n) s = s) \<and>
    (unlocked (LEVELS s ! nat (n - 1)) \<longrightarrow>
       (\<exists>t. selectLevel n s = Inr (None, t) \<and> phase_of t = Playing \<and> currentLevel t = nat n \<and>
            levelDistance t = level_distance (LEVELS s ! nat (n - 1)))) \<and>
    (unlocked (LEVELS s ! nat (n - 1)) \<and> phase_of s = Menu \<longrightarrow>
       (\<exists>t. selectLevel_game_js n s = Inr (None, t) \<and> phase_of t = Playing \<and>
            currentLevel t = nat n \<and>
            levelDistance t = level_distance (LEVELS s ! nat (n - 1)))) \<and>
    LOCK_LEVEL"
  using assms
  by (auto simp add: selectLevel_def selectLevel_with_def selectLevel_game_js_def LOCK_LEVEL_def
      Let_def phase_of_def loadTowerModel_def startGame_def split: if_splits)

theorem select_level_locked_or_started_witness:
  "phase_of (initial [] []) = Menu \<and>
   selectLevel 2 (initial [] []) = Inr (Some (LevelLocked 2), initial [] []) \<and>
   step (ClickLevel 2) (initial [] []) = initial [] [] \<and>
   (\<exists>t. selectLevel 1 (initial [] []) = Inr (None, t) \<and> phase_of t = Playing \<and>
        currentLevel t = 1 \<and> levelDistance t = 3000)"
proof -
  have l: "LEVELS (initial [] []) = LEVELS_initial" "phase_of (initial [] []) = Menu"
    by (simp_all add: initial_def phase_of_def)
  have two: "\<not> unlocked (LEVELS (initial [] []) ! nat (2 - 1))"
    and one: "unlocked (LEVELS (initial [] []) ! nat (1 - 1))"
    "level_distance (LEVELS (initial [] []) ! nat (1 - 1)) = 3000"
    by (simp_all add: l LEVELS_initial_def)
  have r: "(1::int) \<le> 2" "(2::int) \<le> int (length (LEVELS (initial [] [])))"
    "(1::int) \<le> 1" "(1::int) \<le> int (length (LEVELS (initial [] [])))"
    by (simp_all add: l LEVELS_initial_def)
  from select_level_locked_or_started [OF r(1,2), of True] two
  have a: "selectLevel 2 (initial [] []) = Inr (Some (LevelLocked 2), initial [] [])"
    "step (ClickLevel 2) (initial [] []) = initial [] []"
    by blast+
  from select_level_locked_or_started [OF r(3,4), of True] one
  have b: "\<exists>t. selectLevel 1 (initial [] []) = Inr (None, t) \<and> phase_of t = Playing \<and>
        currentLevel t = 1 \<and> levelDistance t = 3000"
    by simp
  show ?thesis using a b l by simp
qed

section \<open>Scoring, streaming and eviction\<close>

lemma scorePass_eq:
  "scorePass pz ps sc = (map (mark pz) ps, sc + 10 * int (length (newlyPassed pz ps)))"
  by (induction ps arbitrary: sc) (simp_all add: mark_def newlyPassed_def)

lemma evictFrom_eq:
  "n \<le> length ps \<Longrightarrow>
   evictFrom n b ps = filter (\<lambda>p. \<not> zPosition p < b) (take n ps) @ drop n ps"
proof (induction n arbitrary: ps)
  case 0
  then show ?case by simp
next
  case (Suc i)
  then have i: "i < length ps" by simp
  have tk: "take (Suc i) ps = take i ps @ [ps ! i]"
    using i by (simp add: take_Suc_conv_app_nth)
  have dr: "drop i ps = ps ! i # drop (Suc i) ps"
    using i by (simp add: Cons_nth_drop_Suc)
  show ?case
  proof (cases "zPosition (ps ! i) < b")
    case True
    let ?qs = "splice1 i ps"
    have len: "i \<le> length ?qs" using i by (simp add: splice1_def)
    have "take i ?qs = take i ps" using i by (simp add: splice1_def)
    moreover have "drop i ?qs = drop (Suc i) ps" using i by (simp add: splice1_def)
    ultimately show ?thesis
      using Suc.IH [OF len] True tk by simp
  next
    case False
    have len: "i \<le> length ps" using i by simp
    show ?thesis
      using Suc.IH [OF len] False tk dr by simp
  qed
qed

lemma evictFrom_filter:
  "evictFrom (length ps) b ps = filter (\<lambda>p. \<not> zPosition p < b) ps"
  by (simp add: evictFrom_eq)

lemma createPillar_fresh: "createPillar xp zp ps = ps @ [\<lparr>xPosition = xp, zPosition = zp, passed = False\<rparr>]"
  by (simp add: createPillar_def)

lemma foldl_createPillar:
  "\<exists>new. foldl (\<lambda>acc j. createPillar (f j) zp acc) ps js = ps @ new \<and>
         (\<forall>p\<in>set new. \<not> passed p \<and> zPosition p = zp)"
proof (induction js arbitrary: ps)
  case Nil
  show ?case by simp
next
  case (Cons j js)
  obtain new where n: "foldl (\<lambda>acc j. createPillar (f j) zp acc) (createPillar (f j) zp ps) js
      = createPillar (f j) zp ps @ new" "\<forall>p\<in>set new. \<not> passed p \<and> zPosition p = zp"
    using Cons.IH [of "createPillar (f j) zp ps"] by blast
  show ?case
    using n
    by (intro exI [of _ "\<lparr>xPosition = f j, zPosition = zp, passed = False\<rparr> # new"])
       (simp add: createPillar_def)
qed

lemma spawnRow_fresh:
  "\<exists>new. fst (spawnRow rnd i zp ps) = ps @ new \<and> (\<forall>p\<in>set new. \<not> passed p \<and> zPosition p = zp)"
  using foldl_createPillar [of "\<lambda>j. (rnd (i + 1 + j) - 0.5) * 80" zp ps]
  by (simp add: spawnRow_def Let_def)

lemma rowsFrom_fresh:
  "\<exists>new. rowsFrom zp limit rnd i ps = ps @ new \<and>
         (\<forall>p\<in>set new. \<not> passed p \<and> zp \<le> zPosition p \<and> zPosition p < limit)"
proof (induction zp limit rnd i ps rule: rowsFrom.induct)
  case (1 zp limit rnd i ps)
  show ?case
  proof (cases "zp < limit")
    case False
    then show ?thesis by (simp add: rowsFrom.simps [of zp])
  next
    case True
    obtain ps' i' where sr: "spawnRow rnd i zp ps = (ps', i')" by (cases "spawnRow rnd i zp ps")
    obtain new1 where n1: "ps' = ps @ new1" "\<forall>p\<in>set new1. \<not> passed p \<and> zPosition p = zp"
      using spawnRow_fresh [of rnd i zp ps] sr by auto
    obtain new2 where n2: "rowsFrom (zp + PILLAR_SPACING) limit rnd i' ps' = ps' @ new2"
      "\<forall>p\<in>set new2. \<not> passed p \<and> zp + PILLAR_SPACING \<le> zPosition p \<and> zPosition p < limit"
      using "1.IH" [OF True sr [symmetric]] by blast
    have "rowsFrom zp limit rnd i ps = ps @ (new1 @ new2)"
      using True sr n1 n2 by (simp add: rowsFrom.simps [of zp])
    moreover have "\<forall>p\<in>set (new1 @ new2). \<not> passed p \<and> zp \<le> zPosition p \<and> zPosition p < limit"
      using n1 n2 True by (auto simp add: PILLAR_SPACING_def)
    ultimately show ?thesis by blast
  qed
qed

lemma unpassed_mark:
  "length (unpassed (map (mark pz) ps)) + length (newlyPassed pz ps) = length (unpassed ps)"
  by (induction ps) (simp_all add: unpassed_def newlyPassed_def mark_def)

lemma mark_passed: "passed (mark pz p) \<longleftrightarrow> passed p \<or> zPosition p < pz"
  by (simp add: mark_def)

lemma mark_zPosition [simp]: "zPosition (mark pz p) = zPosition p" "xPosition (mark pz p) = xPosition p"
  by (simp_all add: mark_def)

lemma kinematics_pillars:
  "pillars (kinematics s) = map (mark (Z (plane_position (kinematics s)))) (pillars s)"
  by (simp add: kinematics_def scorePass_eq)

lemma kinematics_score:
  "score (kinematics s) =
     score s + 10 * int (length (newlyPassed (Z (plane_position (kinematics s))) (pillars s)))"
  by (simp add: kinematics_def scorePass_eq)

lemma update_plane_Z:
  "gameStarted s \<and> \<not> gameOver s \<Longrightarrow> Z (plane_position (update rnd s)) = Z (plane_position (kinematics s))"
  "gameStarted s \<and> \<not> gameOver s \<Longrightarrow> Z (plane_position (update_game_js rnd s)) = Z (plane_position (kinematics s))"
  by (simp_all add: update_def update_game_js_def update_with_def)

lemma update_score:
  "score (update rnd s) = (if gameStarted s \<and> \<not> gameOver s then score (kinematics s) else score s)"
  "score (update_game_js rnd s) = (if gameStarted s \<and> \<not> gameOver s then score (kinematics s) else score s)"
  by (simp_all add: update_def update_game_js_def update_with_def)

lemma removeFarBehind_pillars:
  "pillars (removeFarBehind t) = filter (\<lambda>p. \<not> Z (plane_position t) > zPosition p + 100) (pillars t)"
proof -
  have "filter (\<lambda>p. \<not> zPosition p < Z (plane_position t) - 100) (pillars t) =
        filter (\<lambda>p. \<not> Z (plane_position t) > zPosition p + 100) (pillars t)"
    by (rule filter_cong) auto
  then show ?thesis
    by (simp add: removeFarBehind_def evictFrom_filter)
qed

lemma update_pillars:
  "gameStarted s \<and> \<not> gameOver s \<Longrightarrow>
     pillars (update rnd s) =
       filter (\<lambda>p. \<not> Z (plane_position (kinematics s)) > zPosition p + 100)
         (pillars (generateMore rnd (kinematics s)))"
  "gameStarted s \<and> \<not> gameOver s \<Longrightarrow>
     pillars (update_game_js rnd s) =
       filter (\<lambda>p. \<not> Z (plane_position (kinematics s)) > zPosition p + 100)
         (pillars (generateMore rnd (kinematics s)))"
  by (simp_all add: update_def update_game_js_def update_with_def removeFarBehind_pillars
      generateMore_def Let_def)

lemma generateMore_fresh:
  "\<exists>fresh. pillars (generateMore rnd t) = pillars t @ fresh \<and> (\<forall>p\<in>set fresh. \<not> passed p)"
proof (cases "furthestPillar (pillars t) < Z (plane_position t) + 200")
  case True
  obtain new where "rowsFrom (furthestPillar (pillars t) + PILLAR_SPACING) (Z (plane_position t) + 500) rnd 0 (pillars t)
      = pillars t @ new" "\<forall>p\<in>set new. \<not> passed p"
    using rowsFrom_fresh [of "furthestPillar (pillars t) + PILLAR_SPACING" "Z (plane_position t) + 500" rnd 0 "pillars t"]
    by blast
  then show ?thesis using True by (auto simp add: generateMore_def Let_def)
next
  case False
  then show ?thesis by (simp add: generateMore_def Let_def)
qed

lemma unpassed_filter_le: "length (unpassed (filter P zs)) \<le> length (unpassed zs)"
  by (induction zs) (simp_all add: unpassed_def)

lemma length_filter_append_le:
  "length (unpassed (filter P (xs @ ys))) \<le> length (unpassed xs) + length ys"
proof -
  have "length (unpassed (filter P (xs @ ys))) \<le> length (unpassed (xs @ ys))"
    by (rule unpassed_filter_le)
  also have "\<dots> \<le> length (unpassed xs) + length ys"
    by (simp add: unpassed_def)
  finally show ?thesis .
qed


lemma update_pillars_cc:
  "gameStarted s \<and> \<not> gameOver s \<Longrightarrow>
     pillars (update rnd s) =
       filter (\<lambda>p. \<not> Z (plane_position (update rnd s)) > zPosition p + 100)
         (pillars (generateMore rnd (checkCollisions (kinematics s))))"
  "gameStarted s \<and> \<not> gameOver s \<Longrightarrow>
     pillars (update_game_js rnd s) =
       filter (\<lambda>p. \<not> Z (plane_position (update_game_js rnd s)) > zPosition p + 100)
         (pillars (generateMore rnd (checkCollisions_game_js (kinematics s))))"
  by (simp_all add: update_def update_game_js_def update_with_def removeFarBehind_pillars)

lemma generateMore_cc_pillars:
  "pillars (generateMore rnd (checkCollisions t)) = pillars (generateMore rnd t)"
  "pillars (generateMore rnd (checkCollisions_game_js t)) = pillars (generateMore rnd t)"
  by (simp_all add: generateMore_def Let_def)

lemma ticks_score_mono: "score s \<le> score (ticks_with update rnds s)"
proof (induction rnds arbitrary: s)
  case Nil
  show ?case by simp
next
  case (Cons r rs)
  have "score s \<le> score (update r s)"
    by (simp add: update_score kinematics_score)
  also have "\<dots> \<le> score (ticks_with update rs (update r s))"
    by (rule Cons.IH)
  finally show ?case by simp
qed

lemma tick_accounting:
  assumes pl: "gameStarted s \<and> \<not> gameOver s"
  shows "\<exists>fresh.
      score (update rnd s) =
        score s + 10 * int (length (newlyPassed (Z (plane_position (update rnd s))) (pillars s))) \<and>
      pillars (update rnd s) =
        filter (\<lambda>p. \<not> Z (plane_position (update rnd s)) > zPosition p + 100)
          (map (mark (Z (plane_position (update rnd s)))) (pillars s) @ fresh) \<and>
      (\<forall>p\<in>set fresh. \<not> passed p) \<and>
      score (update rnd s) + 10 * int (length (unpassed (pillars (update rnd s))))
        \<le> score s + 10 * int (length (unpassed (pillars s))) + 10 * int (length fresh)"
proof -
  let ?pz = "Z (plane_position (update rnd s))"
  have pz: "?pz = Z (plane_position (kinematics s))"
    using pl by (simp add: update_plane_Z)
  obtain fresh where f: "pillars (generateMore rnd (kinematics s)) = pillars (kinematics s) @ fresh"
    "\<forall>p\<in>set fresh. \<not> passed p"
    using generateMore_fresh [of rnd "kinematics s"] by blast
  have sc: "score (update rnd s) = score s + 10 * int (length (newlyPassed ?pz (pillars s)))"
    using pl by (simp add: update_score kinematics_score pz)
  have ps: "pillars (update rnd s) =
      filter (\<lambda>p. \<not> ?pz > zPosition p + 100) (map (mark ?pz) (pillars s) @ fresh)"
    using pl f by (simp add: update_pillars pz kinematics_pillars)
  have "length (unpassed (pillars (update rnd s)))
      \<le> length (unpassed (map (mark ?pz) (pillars s))) + length fresh"
    unfolding ps by (rule length_filter_append_le)
  then have "length (unpassed (pillars (update rnd s))) + length (newlyPassed ?pz (pillars s))
      \<le> length (unpassed (pillars s)) + length fresh"
    using unpassed_mark [of ?pz "pillars s"] by linarith
  then have "score (update rnd s) + 10 * int (length (unpassed (pillars (update rnd s))))
        \<le> score s + 10 * int (length (unpassed (pillars s))) + 10 * int (length fresh)"
    using sc by linarith
  then show ?thesis using sc ps f(2) by blast
qed

text \<open>
  Claim C6. A tick never lowers the score (nor does any number of ticks), and scores the
  same in both files. In a tick in Playing the score grows by exactly 10 for each pillar of
  the collection that is not yet marked and lies behind the plane's new \<open>z\<close>; the
  collection after the tick is the marked old collection followed by freshly created,
  unmarked pillars, then filtered by the eviction test, so marking (and scoring) is done on
  the collection as it was before eviction. Marking only ever sets the flag: a marked
  pillar is left as it is and is not counted again, and a second pass at the same position
  counts nothing. Hence score plus ten times the number of unmarked live pillars grows by at
  most ten per freshly created pillar.
\<close>

theorem score_counts_each_pillar_once:
  "score s \<le> score (update rnd s) \<and>
   score (update_game_js rnd s) = score (update rnd s) \<and>
   score s \<le> score (ticks_with update rnds s) \<and>
   (phase_of s = Playing \<longrightarrow>
      (\<exists>fresh.
         score (update rnd s) =
           score s + 10 * int (length (newlyPassed (Z (plane_position (update rnd s))) (pillars s))) \<and>
         pillars (update rnd s) =
           filter (\<lambda>p. \<not> Z (plane_position (update rnd s)) > zPosition p + 100)
             (map (mark (Z (plane_position (update rnd s)))) (pillars s) @ fresh) \<and>
         (\<forall>p\<in>set fresh. \<not> passed p) \<and>
         score (update rnd s) + 10 * int (length (unpassed (pillars (update rnd s))))
           \<le> score s + 10 * int (length (unpassed (pillars s))) + 10 * int (length fresh))) \<and>
   (passed (mark pz p) \<longleftrightarrow> passed p \<or> zPosition p < pz) \<and>
   (passed p \<longrightarrow> mark pz p = p) \<and>
   newlyPassed pz (map (mark pz) ps) = [] \<and>
   scorePass pz ps sc = (map (mark pz) ps, sc + 10 * int (length (newlyPassed pz ps)))"
proof (intro conjI)
  show "score s \<le> score (update rnd s)"
    by (simp add: update_score kinematics_score)
  show "score (update_game_js rnd s) = score (update rnd s)"
    by (simp add: update_score)
  show "score s \<le> score (ticks_with update rnds s)"
    by (rule ticks_score_mono)
  show "phase_of s = Playing \<longrightarrow>
      (\<exists>fresh.
         score (update rnd s) =
           score s + 10 * int (length (newlyPassed (Z (plane_position (update rnd s))) (pillars s))) \<and>
         pillars (update rnd s) =
           filter (\<lambda>p. \<not> Z (plane_position (update rnd s)) > zPosition p + 100)
             (map (mark (Z (plane_position (update rnd s)))) (pillars s) @ fresh) \<and>
         (\<forall>p\<in>set fresh. \<not> passed p) \<and>
         score (update rnd s) + 10 * int (length (unpassed (pillars (update rnd s))))
           \<le> score s + 10 * int (length (unpassed (pillars s))) + 10 * int (length fresh))"
    using tick_accounting [of s rnd] unfolding phase_Playing by blast
  show "passed (mark pz p) \<longleftrightarrow> passed p \<or> zPosition p < pz"
    by (rule mark_passed)
  show "passed p \<longrightarrow> mark pz p = p"
    by (simp add: mark_def)
  show "newlyPassed pz (map (mark pz) ps) = []"
    by (induction ps) (simp_all add: newlyPassed_def mark_def)
  show "scorePass pz ps sc = (map (mark pz) ps, sc + 10 * int (length (newlyPassed pz ps)))"
    by (rule scorePass_eq)
qed

lemma kinematics_plane_Z: "Z (plane_position (kinematics s)) = Z (planePosition s) + speed (handleSpeed s)"
  by (simp add: kinematics_def)

theorem score_counts_each_pillar_once_witness:
  "phase_of scoring_state = Playing \<and> score scoring_state = 0 \<and>
   Z (plane_position (update (always 0) scoring_state)) = 60.3 \<and>
   score (update (always 0) scoring_state) = 10"
proof -
  have h: "phase_of scoring_state = Playing" "score scoring_state = 0"
    "gameStarted scoring_state \<and> \<not> gameOver scoring_state"
    by (simp_all add: scoring_state_def startGame_def initial_def phase_of_def)
  have z: "Z (plane_position (update (always 0) scoring_state)) = 60.3"
    using h(3)
    by (simp add: update_plane_Z kinematics_plane_Z speed_handleSpeed)
       (simp add: scoring_state_def startGame_def initial_def INITIAL_SPEED_def)
  have n: "length (newlyPassed 60.3 (pillars scoring_state)) = 1"
    by (simp add: newlyPassed_def scoring_state_def startGame_def initial_def)
  from score_counts_each_pillar_once [of scoring_state "always 0" "[]"] h z n
  show ?thesis by auto
qed

text \<open>
  Claim C7. In a tick in Playing the collection after the tick is the collection as it
  stands before the eviction loop, filtered: a pillar at \<open>zPosition = P\<close> is dropped exactly
  when the plane's \<open>z\<close> (after this tick's move) exceeds \<open>P + 100\<close>, and every other pillar
  stays, in the same order; the same in both files. In particular a pillar of the
  collection the tick started with survives (marked) exactly when that test fails.
\<close>

theorem eviction_exactly_beyond_100:
  "(phase_of s = Playing \<longrightarrow>
      pillars (update rnd s) =
        filter (\<lambda>p. \<not> Z (plane_position (update rnd s)) > zPosition p + 100)
          (pillars (generateMore rnd (checkCollisions (kinematics s)))) \<and>
      pillars (update_game_js rnd s) =
        filter (\<lambda>p. \<not> Z (plane_position (update_game_js rnd s)) > zPosition p + 100)
          (pillars (generateMore rnd (checkCollisions_game_js (kinematics s)))) \<and>
      (\<forall>p\<in>set (pillars (generateMore rnd (checkCollisions (kinematics s)))).
          p \<in> set (pillars (update rnd s)) \<longleftrightarrow>
          \<not> Z (plane_position (update rnd s)) > zPosition p + 100) \<and>
      (\<forall>p\<in>set (pillars s).
          mark (Z (plane_position (update rnd s))) p \<in> set (pillars (update rnd s)) \<longleftrightarrow>
          \<not> Z (plane_position (update rnd s)) > zPosition p + 100)) \<and>
   pillars (removeFarBehind s) =
     filter (\<lambda>p. \<not> Z (plane_position s) > zPosition p + 100) (pillars s) \<and>
   evictFrom (length ps) b ps = filter (\<lambda>p. \<not> zPosition p < b) ps"
proof (intro conjI impI)
  show "pillars (removeFarBehind s) =
     filter (\<lambda>p. \<not> Z (plane_position s) > zPosition p + 100) (pillars s)"
    by (rule removeFarBehind_pillars)
  show "evictFrom (length ps) b ps = filter (\<lambda>p. \<not> zPosition p < b) ps"
    by (rule evictFrom_filter)
next
  assume "phase_of s = Playing"
  then have pl: "gameStarted s \<and> \<not> gameOver s" by (simp add: phase_Playing)
  show a: "pillars (update rnd s) =
        filter (\<lambda>p. \<not> Z (plane_position (update rnd s)) > zPosition p + 100)
          (pillars (generateMore rnd (checkCollisions (kinematics s))))"
    using pl by (rule update_pillars_cc)
  show "pillars (update_game_js rnd s) =
        filter (\<lambda>p. \<not> Z (plane_position (update_game_js rnd s)) > zPosition p + 100)
          (pillars (generateMore rnd (checkCollisions_game_js (kinematics s))))"
    using pl by (rule update_pillars_cc)
  show "\<forall>p\<in>set (pillars (generateMore rnd (checkCollisions (kinematics s)))).
          p \<in> set (pillars (update rnd s)) \<longleftrightarrow>
          \<not> Z (plane_position (update rnd s)) > zPosition p + 100"
    unfolding a by simp
  obtain fresh where f: "pillars (generateMore rnd (kinematics s)) = pillars (kinematics s) @ fresh"
    using generateMore_fresh [of rnd "kinematics s"] by blast
  have pz: "Z (plane_position (update rnd s)) = Z (plane_position (kinematics s))"
    using pl by (simp add: update_plane_Z)
  show "\<forall>p\<in>set (pillars s).
          mark (Z (plane_position (update rnd s))) p \<in> set (pillars (update rnd s)) \<longleftrightarrow>
          \<not> Z (plane_position (update rnd s)) > zPosition p + 100"
    unfolding a generateMore_cc_pillars f
    by (simp add: kinematics_pillars pz)
qed

theorem eviction_exactly_beyond_100_witness:
  "phase_of eviction_state = Playing \<and>
   Z (plane_position (update (always 0) eviction_state)) = 135 \<and>
   \<lparr>xPosition = 30, zPosition = 30, passed = True\<rparr> \<notin> set (pillars (update (always 0) eviction_state)) \<and>
   \<lparr>xPosition = - 30, zPosition = 35, passed = True\<rparr> \<in> set (pillars (update (always 0) eviction_state))"
proof -
  have h: "phase_of eviction_state = Playing" "gameStarted eviction_state \<and> \<not> gameOver eviction_state"
    by (simp_all add: eviction_state_def startGame_def initial_def phase_of_def)
  have z: "Z (plane_position (update (always 0) eviction_state)) = 135"
    using h(2)
    by (simp add: update_plane_Z kinematics_plane_Z speed_handleSpeed)
       (simp add: eviction_state_def startGame_def initial_def INITIAL_SPEED_def)
  have p: "pillars eviction_state =
      [\<lparr>xPosition = 30, zPosition = 30, passed = True\<rparr>,
       \<lparr>xPosition = - 30, zPosition = 35, passed = True\<rparr>]"
    by (simp add: eviction_state_def startGame_def initial_def)
  from eviction_exactly_beyond_100 [of eviction_state "always 0" "[]" 0] h(1)
  have "\<forall>p\<in>set (pillars eviction_state).
          mark (Z (plane_position (update (always 0) eviction_state))) p
            \<in> set (pillars (update (always 0) eviction_state)) \<longleftrightarrow>
          \<not> Z (plane_position (update (always 0) eviction_state)) > zPosition p + 100"
    by blast
  then have "\<forall>p\<in>set (pillars eviction_state).
          mark 135 p \<in> set (pillars (update (always 0) eviction_state)) \<longleftrightarrow>
          \<not> 135 > zPosition p + 100"
    by (simp only: z)
  then show ?thesis
    using h(1) z by (simp add: p mark_def)
qed

section \<open>The goal ring\<close>

lemma phase_completeLevel [simp]:
  "phase_of (completeLevel s) = LevelComplete" "phase_of (completeLevel_game_js s) = LevelComplete"
  by (simp_all add: phase_of_def completeLevel_def completeLevel_game_js_def Let_def)

lemma phase_endGame [simp]: "phase_of (endGame s) = GameOver"
  by (simp add: phase_of_def endGame_def)

lemma beforeRing_fields [simp]:
  "goldenRing (beforeRing rnd s) = goldenRing s"
  "goldenRing (beforeRing_game_js rnd s) = goldenRing s"
  "plane_position (beforeRing rnd s) = plane_position (checkCollisions (kinematics s))"
  "plane_position (beforeRing_game_js rnd s) = plane_position (kinematics s)"
  by (simp_all add: beforeRing_def beforeRing_game_js_def kinematics_def)

lemma update_as_checks:
  "gameStarted s \<and> \<not> gameOver s \<Longrightarrow>
     update rnd s = passedRingCheck (ringCheck completeLevel (beforeRing rnd s))"
  "gameStarted s \<and> \<not> gameOver s \<Longrightarrow>
     update_game_js rnd s =
       passedRingCheck (ringCheck completeLevel_game_js (beforeRing_game_js rnd s))"
  by (simp_all add: update_def update_game_js_def update_with_def beforeRing_def
      beforeRing_game_js_def)

lemma update_plane_position:
  "gameStarted s \<and> \<not> gameOver s \<Longrightarrow>
     plane_position (update rnd s) = plane_position (beforeRing rnd s)"
  "gameStarted s \<and> \<not> gameOver s \<Longrightarrow>
     plane_position (update_game_js rnd s) = plane_position (beforeRing_game_js rnd s)"
  by (simp_all add: update_def update_game_js_def update_with_def beforeRing_def
      beforeRing_game_js_def)

lemma distanceFromCenter_cong:
  "plane_position s = plane_position t \<Longrightarrow> distanceFromCenter s r = distanceFromCenter t r"
  by (simp add: distanceFromCenter_def)

text \<open>The two ring checks on a state \<open>b\<close> that has the ring \<open>r\<close> and is within 2 of it.\<close>

lemma ring_checks_near:
  assumes ring: "goldenRing b = Some r"
    and cl: "\<And>t. goldenRing (cl t) = goldenRing t" "\<And>t. plane_position (cl t) = plane_position t"
    and near: "ring_zPosition r - 2 \<le> Z (plane_position b)" "Z (plane_position b) \<le> ring_zPosition r + 2"
  shows "passedRingCheck (ringCheck cl b) =
           (if distanceFromCenter b r \<le> 6 then cl b
            else if distanceFromCenter b r < 8 then endGame b else b)"
    and "ringCheck cl b =
           (if distanceFromCenter b r \<le> 6 then cl b
            else if distanceFromCenter b r < 8 then endGame b else b)"
proof -
  show rc: "ringCheck cl b =
           (if distanceFromCenter b r \<le> 6 then cl b
            else if distanceFromCenter b r < 8 then endGame b else b)"
    using ring near by (simp add: ringCheck_def Let_def)
  have "passedRingCheck (cl b) = cl b" "passedRingCheck (endGame b) = endGame b"
    "passedRingCheck b = b"
    using ring near by (simp_all add: passedRingCheck_def cl)
  then show "passedRingCheck (ringCheck cl b) =
           (if distanceFromCenter b r \<le> 6 then cl b
            else if distanceFromCenter b r < 8 then endGame b else b)"
    by (simp add: rc)
qed

text \<open>
  Claim C2. Take a tick that starts in Playing with a ring \<open>r\<close>, and on which the plane's
  \<open>z\<close> (after the move) is within 2 of the ring's \<open>zPosition\<close>. Let \<open>d\<close> be the distance
  from the ring's centre computed from \<open>x\<close> and \<open>y\<close> alone. If \<open>d \<le> 6\<close> the tick ends in
  LevelComplete (it is \<^verbatim>\<open>completeLevel\<close> applied to the state that reached the ring
  checks); if \<open>6 < d < 8\<close> it ends in GameOver; if \<open>d \<ge> 8\<close> the ring check changes
  nothing and the tick ends in the state that reached the ring checks. The same holds for
  \<^verbatim>\<open>game.js\<close>.
\<close>

theorem ring_check_by_distance:
  assumes playing: "phase_of s = Playing"
    and ring: "goldenRing s = Some r"
    and near: "ring_zPosition r - 2 \<le> Z (plane_position (update rnd s))"
      "Z (plane_position (update rnd s)) \<le> ring_zPosition r + 2"
  shows
    "distanceFromCenter (update rnd s) r =
       sqrt ((X (plane_position (update rnd s)) - X (position r))\<^sup>2 +
             (Y (plane_position (update rnd s)) - Y (position r))\<^sup>2) \<and>
     (distanceFromCenter (update rnd s) r \<le> 6 \<longrightarrow>
        phase_of (update rnd s) = LevelComplete \<and>
        update rnd s = completeLevel (beforeRing rnd s)) \<and>
     (6 < distanceFromCenter (update rnd s) r \<and> distanceFromCenter (update rnd s) r < 8 \<longrightarrow>
        phase_of (update rnd s) = GameOver \<and> update rnd s = endGame (beforeRing rnd s)) \<and>
     (8 \<le> distanceFromCenter (update rnd s) r \<longrightarrow>
        ringCheck completeLevel (beforeRing rnd s) = beforeRing rnd s \<and>
        update rnd s = beforeRing rnd s) \<and>
     (distanceFromCenter (update_game_js rnd s) r \<le> 6 \<longrightarrow>
        phase_of (update_game_js rnd s) = LevelComplete) \<and>
     (6 < distanceFromCenter (update_game_js rnd s) r \<and>
      distanceFromCenter (update_game_js rnd s) r < 8 \<longrightarrow>
        phase_of (update_game_js rnd s) = GameOver) \<and>
     (8 \<le> distanceFromCenter (update_game_js rnd s) r \<longrightarrow>
        update_game_js rnd s = beforeRing_game_js rnd s)"
proof -
  have pl: "gameStarted s \<and> \<not> gameOver s"
    using playing by (simp add: phase_Playing)
  let ?b = "beforeRing rnd s"
  let ?c = "beforeRing_game_js rnd s"
  have pp: "plane_position (update rnd s) = plane_position ?b"
    "plane_position (update_game_js rnd s) = plane_position ?c"
    using pl by (simp_all add: update_plane_position)
  have d: "distanceFromCenter (update rnd s) r = distanceFromCenter ?b r"
    "distanceFromCenter (update_game_js rnd s) r = distanceFromCenter ?c r"
    by (rule distanceFromCenter_cong, rule pp(1)) (rule distanceFromCenter_cong, rule pp(2))
  have rb: "goldenRing ?b = Some r" "goldenRing ?c = Some r"
    using ring by simp_all
  have nb: "ring_zPosition r - 2 \<le> Z (plane_position ?b)"
    "Z (plane_position ?b) \<le> ring_zPosition r + 2"
    using near pp by simp_all
  have nc: "ring_zPosition r - 2 \<le> Z (plane_position ?c)"
    "Z (plane_position ?c) \<le> ring_zPosition r + 2"
    using nb by simp_all
  have clf: "\<And>t. goldenRing (completeLevel t) = goldenRing t"
    "\<And>t. plane_position (completeLevel t) = plane_position t"
    "\<And>t. goldenRing (completeLevel_game_js t) = goldenRing t"
    "\<And>t. plane_position (completeLevel_game_js t) = plane_position t"
    by simp_all
  have u: "update rnd s =
      (if distanceFromCenter ?b r \<le> 6 then completeLevel ?b
       else if distanceFromCenter ?b r < 8 then endGame ?b else ?b)"
    using ring_checks_near(1) [of ?b r completeLevel, OF rb(1) clf(1,2) nb]
    by (simp only: update_as_checks(1) [OF pl])
  have rcb: "ringCheck completeLevel ?b =
      (if distanceFromCenter ?b r \<le> 6 then completeLevel ?b
       else if distanceFromCenter ?b r < 8 then endGame ?b else ?b)"
    by (rule ring_checks_near(2) [of ?b r completeLevel, OF rb(1) clf(1,2) nb])
  have v: "update_game_js rnd s =
      (if distanceFromCenter ?c r \<le> 6 then completeLevel_game_js ?c
       else if distanceFromCenter ?c r < 8 then endGame ?c else ?c)"
    using ring_checks_near(1) [of ?c r completeLevel_game_js, OF rb(2) clf(3,4) nc]
    by (simp only: update_as_checks(2) [OF pl])
  have dd: "distanceFromCenter (update rnd s) r =
       sqrt ((X (plane_position (update rnd s)) - X (position r))\<^sup>2 +
             (Y (plane_position (update rnd s)) - Y (position r))\<^sup>2)"
    by (simp add: distanceFromCenter_def)
  have c1: "distanceFromCenter ?b r \<le> 6 \<longrightarrow>
      phase_of (update rnd s) = LevelComplete \<and> update rnd s = completeLevel ?b"
    by (simp add: u)
  have c2: "6 < distanceFromCenter ?b r \<and> distanceFromCenter ?b r < 8 \<longrightarrow>
      phase_of (update rnd s) = GameOver \<and> update rnd s = endGame ?b"
    by (simp add: u)
  have c3: "8 \<le> distanceFromCenter ?b r \<longrightarrow>
      ringCheck completeLevel ?b = ?b \<and> update rnd s = ?b"
    by (simp add: u rcb)
  have c4: "distanceFromCenter ?c r \<le> 6 \<longrightarrow> phase_of (update_game_js rnd s) = LevelComplete"
    by (simp add: v)
  have c5: "6 < distanceFromCenter ?c r \<and> distanceFromCenter ?c r < 8 \<longrightarrow>
      phase_of (update_game_js rnd s) = GameOver"
    by (simp add: v)
  have c6: "8 \<le> distanceFromCenter ?c r \<longrightarrow> update_game_js rnd s = ?c"
    by (simp add: v)
  show ?thesis
    unfolding d(2) using dd c1 c2 c3 c4 c5 c6 unfolding d(1) [symmetric] by blast
qed

lemma sqrt_thresholds:
  "sqrt a \<le> 6 \<longleftrightarrow> a \<le> 36" "sqrt a < 8 \<longleftrightarrow> a < 64"
  "6 < sqrt a \<longleftrightarrow> 36 < a" "8 \<le> sqrt a \<longleftrightarrow> 64 \<le> a"
proof -
  have six: "sqrt 36 = 6" using real_sqrt_abs [of 6] by simp
  have eight: "sqrt 64 = 8" using real_sqrt_abs [of 8] by simp
  show "sqrt a \<le> 6 \<longleftrightarrow> a \<le> 36" using real_sqrt_le_iff [of a 36] by (simp add: six)
  show "sqrt a < 8 \<longleftrightarrow> a < 64" using real_sqrt_less_iff [of a 64] by (simp add: eight)
  show "6 < sqrt a \<longleftrightarrow> 36 < a" using real_sqrt_less_iff [of 36 a] by (simp add: six)
  show "8 \<le> sqrt a \<longleftrightarrow> 64 \<le> a" using real_sqrt_le_iff [of 64 a] by (simp add: eight)
qed

text \<open>A tick in Playing with no key held and the plane between the barriers.\<close>

lemma idle_tick_plane_position:
  assumes "gameStarted s \<and> \<not> gameOver s" and "\<And>k. \<not> keys s k"
    and "\<bar>X (planePosition s)\<bar> \<le> 39"
  shows "X (plane_position (update rnd s)) = X (planePosition s)"
    and "Y (plane_position (update rnd s)) = Y (planePosition s)"
    and "Z (plane_position (update rnd s)) = Z (planePosition s) + speed s"
proof -
  have k: "planePosition (kinematics s) = (planePosition s)\<lparr>Z := Z (planePosition s) + speed s\<rparr>"
    "Y (plane_position (kinematics s)) = Y (planePosition s)"
    "Z (plane_position (kinematics s)) = Z (planePosition s) + speed s"
    using assms(2)
    by (simp_all add: kinematics_def handleSteering_def handlePitch_def handleSpeed_def
        moveForward_def Let_def)
  have x: "X (planePosition (checkPillars (kinematics s))) = X (planePosition s)"
    "X (plane_position (checkPillars (kinematics s))) = X (planePosition s)"
    using k(1) by (simp_all add: kinematics_X_sync)
  show "X (plane_position (update rnd s)) = X (planePosition s)"
    using assms(1,3) x
    by (simp add: update_positions constrainBarriers_def Let_def BARRIER_X_LIMIT_def
        PLANE_HALF_WIDTH_def abs_le_iff)
  show "Y (plane_position (update rnd s)) = Y (planePosition s)"
    using assms(1) k(2) by (simp add: update_positions)
  show "Z (plane_position (update rnd s)) = Z (planePosition s) + speed s"
    using assms(1) k(3) by (simp add: update_positions)
qed

lemma approach_fields:
  "gameStarted (approach xp yp zp) \<and> \<not> gameOver (approach xp yp zp)"
  "phase_of (approach xp yp zp) = Playing"
  "keys (approach xp yp zp) k = False"
  "goldenRing (approach xp yp zp) = Some level1_ring"
  "planePosition (approach xp yp zp) = \<lparr>X = xp, Y = yp, Z = zp\<rparr>"
  "speed (approach xp yp zp) = 0.5"
  "currentLevel (approach xp yp zp) = 1"
  "LEVELS (approach xp yp zp) = LEVELS_initial"
  "restartBtn_textContent (approach xp yp zp) = []"
  by (simp_all add: approach_def startGame_def towerLoaded_def createGoldenRing_def
      createBarriers_def generatePillars_def init_def loadTowerModel_def initial_def
      LEVELS_initial_def INITIAL_SPEED_def level1_ring_def phase_of_def)

lemma approach_tick:
  assumes "\<bar>xp\<bar> \<le> 39"
  shows "plane_position (update rnd (approach xp yp zp)) = \<lparr>X = xp, Y = yp, Z = zp + 0.5\<rparr>"
  using idle_tick_plane_position [of "approach xp yp zp" rnd] assms
  by (simp add: approach_fields)

theorem ring_check_by_distance_witness:
  "phase_of (approach 0 5 2949.5) = Playing \<and>
   goldenRing (approach 0 5 2949.5) = Some level1_ring \<and>
   Z (plane_position (update (always 0) (approach 0 5 2949.5))) = ring_zPosition level1_ring \<and>
   distanceFromCenter (update (always 0) (approach 0 5 2949.5)) level1_ring = 3 \<and>
   phase_of (update (always 0) (approach 0 5 2949.5)) = LevelComplete \<and>
   distanceFromCenter (update (always 0) (approach 0 15 2949.5)) level1_ring = 7 \<and>
   phase_of (update (always 0) (approach 0 15 2949.5)) = GameOver \<and>
   distanceFromCenter (update (always 0) (approach 20 8 2949.5)) level1_ring = 20 \<and>
   update (always 0) (approach 20 8 2949.5) = beforeRing (always 0) (approach 20 8 2949.5)"
proof -
  have s3: "sqrt 9 = 3" using real_sqrt_abs [of 3] by simp
  have s7: "sqrt 49 = 7" using real_sqrt_abs [of 7] by simp
  have s20: "sqrt 400 = 20" using real_sqrt_abs [of 20] by simp
  have d1: "distanceFromCenter (update (always 0) (approach 0 5 2949.5)) level1_ring = 3"
    by (simp add: distanceFromCenter_def approach_tick level1_ring_def s3)
  have d2: "distanceFromCenter (update (always 0) (approach 0 15 2949.5)) level1_ring = 7"
    by (simp add: distanceFromCenter_def approach_tick level1_ring_def s7)
  have d3: "distanceFromCenter (update (always 0) (approach 20 8 2949.5)) level1_ring = 20"
    by (simp add: distanceFromCenter_def approach_tick level1_ring_def s20)
  have n1: "ring_zPosition level1_ring - 2
      \<le> Z (plane_position (update (always 0) (approach 0 5 2949.5)))"
    "Z (plane_position (update (always 0) (approach 0 5 2949.5)))
      \<le> ring_zPosition level1_ring + 2"
    by (simp_all add: approach_tick level1_ring_def)
  have n2: "ring_zPosition level1_ring - 2
      \<le> Z (plane_position (update (always 0) (approach 0 15 2949.5)))"
    "Z (plane_position (update (always 0) (approach 0 15 2949.5)))
      \<le> ring_zPosition level1_ring + 2"
    by (simp_all add: approach_tick level1_ring_def)
  have n3: "ring_zPosition level1_ring - 2
      \<le> Z (plane_position (update (always 0) (approach 20 8 2949.5)))"
    "Z (plane_position (update (always 0) (approach 20 8 2949.5)))
      \<le> ring_zPosition level1_ring + 2"
    by (simp_all add: approach_tick level1_ring_def)
  have z: "Z (plane_position (update (always 0) (approach 0 5 2949.5)))
      = ring_zPosition level1_ring"
    by (simp add: approach_tick level1_ring_def)
  from ring_check_by_distance [OF approach_fields(2) approach_fields(4) n1] d1
  have a: "phase_of (update (always 0) (approach 0 5 2949.5)) = LevelComplete"
    by simp
  from ring_check_by_distance [OF approach_fields(2) approach_fields(4) n2] d2
  have b: "phase_of (update (always 0) (approach 0 15 2949.5)) = GameOver"
    by simp
  from ring_check_by_distance [OF approach_fields(2) approach_fields(4) n3] d3
  have c: "update (always 0) (approach 20 8 2949.5) = beforeRing (always 0) (approach 20 8 2949.5)"
    by simp
  show ?thesis
    using a b c d1 d2 d3 z approach_fields(2,4) by simp
qed

text \<open>
  Claim C4. Take a tick that starts in Playing (so no transition has fired before) with a
  ring \<open>r\<close>, and on which the plane's \<open>z\<close> after the move exceeds the ring's
  \<open>zPosition + 10\<close>. Then the tick ends in GameOver, in both files. The tick is the
  "passed the ring" check applied after the ring-arrival check, which on this tick changes
  nothing.
\<close>

theorem flew_past_ring_is_game_over:
  assumes playing: "phase_of s = Playing"
    and ring: "goldenRing s = Some r"
    and past: "Z (plane_position (update rnd s)) > ring_zPosition r + 10"
  shows
    "phase_of (update rnd s) = GameOver \<and>
     update rnd s = passedRingCheck (ringCheck completeLevel (beforeRing rnd s)) \<and>
     ringCheck completeLevel (beforeRing rnd s) = beforeRing rnd s \<and>
     update rnd s = endGame (beforeRing rnd s) \<and>
     phase_of (update_game_js rnd s) = GameOver \<and>
     update_game_js rnd s = endGame (beforeRing_game_js rnd s)"
proof -
  have pl: "gameStarted s \<and> \<not> gameOver s"
    using playing by (simp add: phase_Playing)
  let ?b = "beforeRing rnd s"
  let ?c = "beforeRing_game_js rnd s"
  have pb: "Z (plane_position ?b) > ring_zPosition r + 10"
    using past pl by (simp add: update_plane_position)
  then have pc: "Z (plane_position ?c) > ring_zPosition r + 10"
    by simp
  have rb: "ringCheck completeLevel ?b = ?b"
    using ring pb by (simp add: ringCheck_def)
  have rc: "ringCheck completeLevel_game_js ?c = ?c"
    using ring pc by (simp add: ringCheck_def)
  have eb: "passedRingCheck ?b = endGame ?b"
    using ring pb by (simp add: passedRingCheck_def)
  have ec: "passedRingCheck ?c = endGame ?c"
    using ring pc by (simp add: passedRingCheck_def)
  have u: "update rnd s = passedRingCheck (ringCheck completeLevel ?b)"
    using pl by (rule update_as_checks)
  have v: "update_game_js rnd s = passedRingCheck (ringCheck completeLevel_game_js ?c)"
    using pl by (rule update_as_checks)
  have "update rnd s = endGame ?b" by (simp only: u rb eb)
  moreover have "update_game_js rnd s = endGame ?c" by (simp only: v rc ec)
  ultimately show ?thesis
    using u rb by simp
qed

theorem flew_past_ring_is_game_over_witness:
  "phase_of (approach 0 5 2960.5) = Playing \<and>
   goldenRing (approach 0 5 2960.5) = Some level1_ring \<and>
   Z (plane_position (update (always 0) (approach 0 5 2960.5))) = ring_zPosition level1_ring + 11 \<and>
   phase_of (update (always 0) (approach 0 5 2960.5)) = GameOver"
proof -
  have z: "Z (plane_position (update (always 0) (approach 0 5 2960.5)))
      = ring_zPosition level1_ring + 11"
    by (simp add: approach_tick level1_ring_def)
  then have p: "Z (plane_position (update (always 0) (approach 0 5 2960.5)))
      > ring_zPosition level1_ring + 10"
    by simp
  have "phase_of (update (always 0) (approach 0 5 2960.5)) = GameOver"
    by (rule conjunct1 [OF flew_past_ring_is_game_over [OF approach_fields(2) approach_fields(4) p]])
  then show ?thesis using z approach_fields(2,4) by simp
qed

section \<open>Ticks on which nothing ends the game\<close>

lemma foldl_createPillar_x:
  "\<exists>new. foldl (\<lambda>acc j. createPillar v zp acc) ps js = ps @ new \<and> (\<forall>p\<in>set new. xPosition p = v)"
proof (induction js arbitrary: ps)
  case Nil
  show ?case by simp
next
  case (Cons j js)
  obtain new where n: "foldl (\<lambda>acc j. createPillar v zp acc) (createPillar v zp ps) js
      = createPillar v zp ps @ new" "\<forall>p\<in>set new. xPosition p = v"
    using Cons.IH [of "createPillar v zp ps"] by blast
  show ?case
    using n
    by (intro exI [of _ "\<lparr>xPosition = v, zPosition = zp, passed = False\<rparr> # new"])
       (simp add: createPillar_def)
qed

lemma rowsFrom_always_x:
  "\<exists>new. rowsFrom zp limit (always c) i ps = ps @ new \<and>
         (\<forall>p\<in>set new. xPosition p = (c - 0.5) * 80)"
proof (induction zp limit "always c" i ps rule: rowsFrom.induct)
  case (1 zp limit i ps)
  show ?case
  proof (cases "zp < limit")
    case False
    then show ?thesis by (simp add: rowsFrom.simps [of zp])
  next
    case True
    obtain ps' i' where sr: "spawnRow (always c) i zp ps = (ps', i')"
      by (cases "spawnRow (always c) i zp ps")
    obtain new1 where n1: "ps' = ps @ new1" "\<forall>p\<in>set new1. xPosition p = (c - 0.5) * 80"
      using foldl_createPillar_x [of "(c - 0.5) * 80" zp ps] sr
      by (auto simp add: spawnRow_def Let_def always_def)
    obtain new2 where n2: "rowsFrom (zp + PILLAR_SPACING) limit (always c) i' ps' = ps' @ new2"
      "\<forall>p\<in>set new2. xPosition p = (c - 0.5) * 80"
      using "1.hyps" [OF True sr [symmetric]] by blast
    have "rowsFrom zp limit (always c) i ps = ps @ (new1 @ new2)"
      using True sr n1 n2 by (simp add: rowsFrom.simps [of zp])
    moreover have "\<forall>p\<in>set (new1 @ new2). xPosition p = (c - 0.5) * 80"
      using n1 n2 by auto
    ultimately show ?thesis by blast
  qed
qed

lemma generateMore_always_x:
  assumes "\<forall>p\<in>set (pillars t). xPosition p = - 40"
  shows "\<forall>p\<in>set (pillars (generateMore (always 0) t)). xPosition p = - 40"
proof (cases "furthestPillar (pillars t) < Z (plane_position t) + 200")
  case True
  obtain new where "rowsFrom (furthestPillar (pillars t) + PILLAR_SPACING)
      (Z (plane_position t) + 500) (always 0) 0 (pillars t) = pillars t @ new"
    "\<forall>p\<in>set new. xPosition p = (0 - 0.5) * 80"
    using rowsFrom_always_x [of "furthestPillar (pillars t) + PILLAR_SPACING"
        "Z (plane_position t) + 500" 0 0 "pillars t"] by blast
  then show ?thesis using True assms by (auto simp add: generateMore_def Let_def)
next
  case False
  then show ?thesis using assms by (simp add: generateMore_def Let_def)
qed

lemma kinematics_X:
  "X (planePosition (kinematics s)) =
     (if keys s ''d'' then X (planePosition s) - 0.3
      else if keys s ''a'' then X (planePosition s) + 0.3
      else X (planePosition s))"
  by (simp add: kinematics_def handleSteering_def)

lemma kinematics_flags [simp]:
  "gameStarted (kinematics s) = gameStarted s" "gameOver (kinematics s) = gameOver s"
  "goldenRing (kinematics s) = goldenRing s" "keys (kinematics s) = keys s"
  "restartBtn_textContent (kinematics s) = restartBtn_textContent s"
  "currentLevel (kinematics s) = currentLevel s" "LEVELS (kinematics s) = LEVELS s"
  "pendingTimers (kinematics s) = pendingTimers s"
  "speed (kinematics s) = speed (handleSpeed s)"
  by (simp_all add: kinematics_def)

text \<open>In a clear lane nothing ends the tick: it is the kinematic step, the barrier block
  (where the file has it), streaming and eviction.\<close>

lemma clear_lane_no_hit:
  assumes "clear_lane (Suc n) s"
  shows "checkPillars (kinematics s) = kinematics s"
proof -
  have x: "0 \<le> X (plane_position (kinematics s))"
    using assms by (auto simp add: clear_lane_def kinematics_X_sync kinematics_X)
  have "\<not> hitsPillar (kinematics s)"
    using assms x
    by (auto simp add: hitsPillar_def kinematics_pillars clear_lane_def collision_def planeBox_def
        pillarBox_def PILLAR_WIDTH_def Let_def)
  then show ?thesis by (simp add: checkPillars_eq)
qed

lemma clear_lane_tick:
  assumes cl: "clear_lane (Suc n) s"
  shows "update (always 0) s =
           removeFarBehind (generateMore (always 0) (constrainBarriers (kinematics s)))"
    and "update_game_js (always 0) s = removeFarBehind (generateMore (always 0) (kinematics s))"
proof -
  let ?k = "kinematics s"
  have pl: "gameStarted s \<and> \<not> gameOver s"
    using cl by (simp add: clear_lane_def phase_Playing)
  have y: "1 \<le> Y (plane_position ?k)"
    using cl by (auto simp add: clear_lane_def kinematics_plane_Y max_def min_def)
  have sp: "speed (handleSpeed s) \<le> 5"
    using cl by (auto simp add: clear_lane_def speed_handleSpeed MAX_SPEED_def MIN_SPEED_def
        min_def max_def)
  have z: "Z (plane_position ?k) \<le> Z (planePosition s) + 5"
    using sp by (simp add: kinematics_plane_Z)
  have cc: "checkCollisions ?k = constrainBarriers ?k"
    "checkCollisions_game_js ?k = ?k"
    using y by (simp_all add: checkCollisions_def checkCollisions_game_js_def
        clear_lane_no_hit [OF cl] checkGround_def)
  have ring: "\<And>(t::game) cl'. goldenRing t = goldenRing s \<Longrightarrow>
      Z (plane_position t) = Z (plane_position ?k) \<Longrightarrow>
      passedRingCheck (ringCheck cl' t) = t"
  proof -
    fix t :: game and cl'
    assume g: "goldenRing t = goldenRing s" and zt: "Z (plane_position t) = Z (plane_position ?k)"
    show "passedRingCheck (ringCheck cl' t) = t"
    proof (cases "goldenRing s")
      case None
      then show ?thesis using g by (simp add: ringCheck_def passedRingCheck_def)
    next
      case (Some r)
      then have "Z (planePosition s) + 5 * real (Suc n) < ring_zPosition r - 2"
        using cl by (simp add: clear_lane_def)
      then have "Z (plane_position t) < ring_zPosition r - 2"
        using z zt by simp
      then show ?thesis
        using g Some by (simp add: ringCheck_def passedRingCheck_def)
    qed
  qed
  show "update (always 0) s =
           removeFarBehind (generateMore (always 0) (constrainBarriers ?k))"
    using pl ring [of "removeFarBehind (generateMore (always 0) (constrainBarriers ?k))" completeLevel]
    by (simp add: update_def update_with_def cc)
  show "update_game_js (always 0) s = removeFarBehind (generateMore (always 0) ?k)"
    using pl ring [of "removeFarBehind (generateMore (always 0) ?k)" completeLevel_game_js]
    by (simp add: update_game_js_def update_with_def cc)
qed

lemma clear_lane_step:
  assumes cl: "clear_lane (Suc n) s"
  shows "clear_lane n (update (always 0) s)" and "clear_lane n (update_game_js (always 0) s)"
proof -
  let ?k = "kinematics s"
  have sp: "speed (handleSpeed s) \<le> 5"
    using cl by (auto simp add: clear_lane_def speed_handleSpeed MAX_SPEED_def MIN_SPEED_def
        min_def max_def)
  have x: "0 \<le> X (planePosition ?k)"
    using cl by (auto simp add: clear_lane_def kinematics_X)
  have xb: "0 \<le> X (planePosition (constrainBarriers ?k))"
    using x by (simp add: constrainBarriers_def Let_def BARRIER_X_LIMIT_def PLANE_HALF_WIDTH_def)
  have y: "1 \<le> Y (planePosition ?k)"
    using cl by (auto simp add: clear_lane_def kinematics_def handlePitch_def max_def min_def)
  have z: "Z (planePosition ?k) \<le> Z (planePosition s) + 5"
    using sp by (simp add: kinematics_def)
  have ps: "\<forall>p\<in>set (pillars ?k). xPosition p = - 40"
    using cl by (simp add: clear_lane_def kinematics_pillars)
  have g1: "\<forall>p\<in>set (pillars (generateMore (always 0) (constrainBarriers ?k))). xPosition p = - 40"
    by (rule generateMore_always_x) (simp add: ps)
  have g2: "\<forall>p\<in>set (pillars (generateMore (always 0) ?k)). xPosition p = - 40"
    by (rule generateMore_always_x) (simp add: ps)
  have ring: "case goldenRing s of None \<Rightarrow> True
      | Some r \<Rightarrow> Z (planePosition ?k) + 5 * real n < ring_zPosition r - 2"
    using cl z by (auto simp add: clear_lane_def split: option.splits)
  show "clear_lane n (update (always 0) s)"
    unfolding clear_lane_tick(1) [OF cl]
    using cl xb y sp g1 ring
    by (auto simp add: clear_lane_def phase_Playing removeFarBehind_pillars MAX_SPEED_def
        split: option.splits)
  show "clear_lane n (update_game_js (always 0) s)"
    unfolding clear_lane_tick(2) [OF cl]
    using cl x y sp g2 ring
    by (auto simp add: clear_lane_def phase_Playing removeFarBehind_pillars MAX_SPEED_def
        split: option.splits)
qed

lemma clear_lane_allPlaying:
  "clear_lane n s \<Longrightarrow> allPlaying_with update (replicate n (always 0)) s"
  "clear_lane n s \<Longrightarrow> allPlaying_with update_game_js (replicate n (always 0)) s"
proof (induction n arbitrary: s)
  case 0
  { case 1 show ?case by simp }
  { case 2 show ?case by simp }
next
  case (Suc n)
  { case 1
    then show ?case
      using Suc.IH(1) [of "update (always 0) s"] clear_lane_step(1) [of n s]
      by (simp add: clear_lane_def) }
  { case 2
    then show ?case
      using Suc.IH(2) [of "update_game_js (always 0) s"] clear_lane_step(2) [of n s]
      by (simp add: clear_lane_def) }
qed

section \<open>The side barriers\<close>

lemma constrainBarriers_X:
  "- 39 \<le> X (planePosition (constrainBarriers s)) \<and> X (planePosition (constrainBarriers s)) \<le> 39"
  by (simp add: constrainBarriers_def Let_def BARRIER_X_LIMIT_def PLANE_HALF_WIDTH_def)

lemma constrainBarriers_sync:
  "X (plane_position s) = X (planePosition s) \<Longrightarrow>
   X (plane_position (constrainBarriers s)) = X (planePosition (constrainBarriers s))"
  by (simp add: constrainBarriers_def Let_def)

lemma constrainBarriers_phase: "phase_of (constrainBarriers s) = phase_of s"
  by (simp add: phase_of_def constrainBarriers_def Let_def)

lemma update_within:
  "gameStarted s \<and> \<not> gameOver s \<Longrightarrow>
     \<bar>X (planePosition (update rnd s))\<bar> \<le> 39 \<and>
     X (plane_position (update rnd s)) = X (planePosition (update rnd s))"
  using constrainBarriers_X [of "checkPillars (kinematics s)"]
    constrainBarriers_sync [of "checkPillars (kinematics s)"]
  by (simp add: update_positions kinematics_X_sync abs_le_iff)

lemma update_within_barriers: "within_barriers s \<Longrightarrow> within_barriers (update rnd s)"
proof (cases "gameStarted s \<and> \<not> gameOver s")
  case True
  then show ?thesis using update_within [of s rnd] by (simp add: within_barriers_def)
next
  case False
  assume "within_barriers s"
  then show ?thesis using False by (auto simp add: update_def update_with_def)
qed

lemma step_within: "within_barriers s \<Longrightarrow> within_barriers (step e s)"
proof (cases e)
  case (Tick rnd)
  assume "within_barriers s"
  then show ?thesis using Tick by (simp add: update_within_barriers)
next
  case (ClickLevel n)
  assume "within_barriers s"
  then show ?thesis using ClickLevel
    by (auto simp: within_barriers_def selectLevel_def selectLevel_with_def loadTowerModel_def
        Let_def split: sum.splits if_splits)
qed (simp_all add: within_barriers_def onKeyDown_def onKeyUp_def startGame_def restartGame_def
      resetSession_def returnToMainMenu_def loadTowerModel_def towerLoaded_def towerLoadError_def
      generatePillars_def createBarriers_def createGoldenRing_def Let_def)

lemma update_game_js_X:
  "gameStarted s \<and> \<not> gameOver s \<Longrightarrow>
     X (planePosition (update_game_js rnd s)) =
       (if keys s ''d'' then X (planePosition s) - 0.3
        else if keys s ''a'' then X (planePosition s) + 0.3
        else X (planePosition s))"
  by (simp add: update_game_js_def update_with_def kinematics_def handleSteering_def)

lemma ticks_game_js_X:
  "allPlaying_with update_game_js rnds s \<Longrightarrow> keys s ''a'' \<Longrightarrow> \<not> keys s ''d'' \<Longrightarrow>
   X (planePosition (ticks_with update_game_js rnds s)) =
     X (planePosition s) + 0.3 * real (length rnds)"
proof (induction rnds arbitrary: s)
  case Nil
  then show ?case by simp
next
  case (Cons r rs)
  let ?t = "update_game_js r s"
  from Cons.prems have pl: "gameStarted s \<and> \<not> gameOver s"
    and rest: "allPlaying_with update_game_js rs ?t"
    by (simp_all add: phase_Playing)
  have x: "X (planePosition ?t) = X (planePosition s) + 0.3"
    using pl Cons.prems(2,3) by (simp add: update_game_js_X)
  have "X (planePosition (ticks_with update_game_js rs ?t)) =
      X (planePosition ?t) + 0.3 * real (length rs)"
    using Cons.IH [OF rest] Cons.prems(2,3) by (simp add: update_keys)
  then show ?case using x by (simp add: algebra_simps)
qed

lemma game_js_started_fields:
  "phase_of game_js_started = Playing"
  "keys game_js_started k = False"
  "goldenRing game_js_started = Some level1_ring"
  "planePosition game_js_started = \<lparr>X = 0, Y = 5, Z = 0\<rparr>"
  "plane_position game_js_started = \<lparr>X = 0, Y = 5, Z = 0\<rparr>"
  "speed game_js_started = 0.5"
  "currentLevel game_js_started = 1"
  "LEVELS game_js_started = LEVELS_initial"
  "pendingTimers game_js_started = 0"
  "pillars game_js_started = rowsFrom 20 2900 (always 0) 0 []"
  by (simp_all add: game_js_started_def init_game_js_def startGame_def createGoldenRing_def
      generatePillars_game_js_def initial_def LEVELS_initial_def INITIAL_SPEED_def
      level1_ring_def phase_of_def)

lemma game_js_steering_left_clear_lane: "clear_lane 131 game_js_steering_left"
proof -
  obtain new where "rowsFrom 20 2900 (always 0) 0 [] = [] @ new"
    "\<forall>p\<in>set new. xPosition p = (0 - 0.5) * 80"
    using rowsFrom_always_x [of 20 2900 0 0 "[]"] by blast
  then have "\<forall>p\<in>set (pillars game_js_started). xPosition p = - 40"
    by (simp add: game_js_started_fields)
  then show ?thesis
    by (simp add: clear_lane_def game_js_steering_left_def onKeyDown_def Let_def phase_Playing
        game_js_started_fields [simplified phase_Playing] level1_ring_def MAX_SPEED_def)
qed

text \<open>
  Claim C1, as it stands, fails on \<^verbatim>\<open>game.js\<close>, whose \<^verbatim>\<open>checkCollisions\<close> has no
  barrier block: level 1 started, A held for 131 ticks (every pillar spawned at \<open>x = -40\<close>),
  each tick starting in Playing, leaves the plane at \<open>x = 39.3\<close>.
\<close>

theorem barrier_clamp_absent_in_game_js:
  "allPlaying_with update_game_js (replicate 131 (always 0)) game_js_steering_left \<and>
   X (planePosition (ticks_with update_game_js (replicate 131 (always 0)) game_js_steering_left))
     = 39.3 \<and>
   \<not> \<bar>X (planePosition
          (ticks_with update_game_js (replicate 131 (always 0)) game_js_steering_left))\<bar> \<le> 39"
proof -
  have p: "allPlaying_with update_game_js (replicate 131 (always 0)) game_js_steering_left"
    using game_js_steering_left_clear_lane by (rule clear_lane_allPlaying)
  have k: "keys game_js_steering_left ''a''" "\<not> keys game_js_steering_left ''d''"
    "X (planePosition game_js_steering_left) = 0"
    by (simp_all add: game_js_steering_left_def onKeyDown_def Let_def game_js_started_fields)
  have "X (planePosition
          (ticks_with update_game_js (replicate 131 (always 0)) game_js_steering_left)) = 39.3"
    using ticks_game_js_X [OF p k(1,2)] k(3) by simp
  then show ?thesis using p by simp
qed

lemma constrainBarriers_eq:
  "constrainBarriers s =
     (if X (planePosition s) < - 39 \<or> 39 < X (planePosition s)
      then s\<lparr>planePosition :=
               (planePosition s)\<lparr>X := max (- 39) (min 39 (X (planePosition s)))\<rparr>,
             plane_position :=
               (plane_position s)\<lparr>X := max (- 39) (min 39 (X (planePosition s)))\<rparr>\<rparr>
      else s)"
  by (simp add: constrainBarriers_def Let_def BARRIER_X_LIMIT_def PLANE_HALF_WIDTH_def)

lemma constrainBarriers_X_eq:
  "X (planePosition (constrainBarriers s)) = max (- 39) (min 39 (X (planePosition s)))"
  by (simp add: constrainBarriers_eq)

lemma update_X:
  "gameStarted s \<and> \<not> gameOver s \<Longrightarrow>
     X (planePosition (update rnd s)) =
       max (- 39) (min 39
         (if keys s ''d'' then X (planePosition s) - 0.3
          else if keys s ''a'' then X (planePosition s) + 0.3
          else X (planePosition s)))"
  by (simp add: update_positions constrainBarriers_X_eq kinematics_X)

text \<open>
  Claim C1, amended: in \<^verbatim>\<open>part_000\<close> (the file with the barriers), the barrier block
  leaves a state with \<open>-39 \<le> x \<le> 39\<close> as it is and otherwise writes the nearer limit,
  \<open>-39\<close> or \<open>39\<close>, into both copies of the position (the script's
  \<^verbatim>\<open>planePosition\<close> and the mesh) and changes nothing else, so it never ends the game.
  Hence after every tick in Playing \<open>x\<close> is the steered \<open>x\<close> clamped to \<open>[-39, 39]\<close>, so
  \<open>\<bar>x\<bar> \<le> 42 - 3 = 39\<close>, and the mesh holds the same \<open>x\<close>; the collision check leaves
  \<open>x\<close> clamped to \<open>[-39, 39]\<close> whatever the state; and \<open>\<bar>x\<bar> \<le> 39\<close> is kept by every
  run of events, so also by any number of ticks of steering into a wall.
\<close>

theorem barrier_clamp_keeps_plane_inside:
  "constrainBarriers s =
     (if X (planePosition s) < - 39 \<or> 39 < X (planePosition s)
      then s\<lparr>planePosition :=
               (planePosition s)\<lparr>X := max (- 39) (min 39 (X (planePosition s)))\<rparr>,
             plane_position :=
               (plane_position s)\<lparr>X := max (- 39) (min 39 (X (planePosition s)))\<rparr>\<rparr>
      else s) \<and>
   (phase_of s = Playing \<longrightarrow>
      X (planePosition (update rnd s)) =
        max (- 39) (min 39
          (if keys s ''d'' then X (planePosition s) - 0.3
           else if keys s ''a'' then X (planePosition s) + 0.3
           else X (planePosition s))) \<and>
      \<bar>X (planePosition (update rnd s))\<bar> \<le> 39 \<and>
      X (plane_position (update rnd s)) = X (planePosition (update rnd s))) \<and>
   X (planePosition (checkCollisions s)) = max (- 39) (min 39 (X (planePosition s))) \<and>
   \<bar>X (planePosition (checkCollisions s))\<bar> \<le> 39 \<and>
   phase_of (constrainBarriers s) = phase_of s \<and>
   (within_barriers s \<longrightarrow> within_barriers (run evs s)) \<and>
   within_barriers (run evs (init (initial btn title))) \<and>
   BARRIER_X_LIMIT - PLANE_HALF_WIDTH = 39"
proof (intro conjI)
  show "constrainBarriers s =
     (if X (planePosition s) < - 39 \<or> 39 < X (planePosition s)
      then s\<lparr>planePosition :=
               (planePosition s)\<lparr>X := max (- 39) (min 39 (X (planePosition s)))\<rparr>,
             plane_position :=
               (plane_position s)\<lparr>X := max (- 39) (min 39 (X (planePosition s)))\<rparr>\<rparr>
      else s)"
    by (rule constrainBarriers_eq)
  show "phase_of s = Playing \<longrightarrow>
      X (planePosition (update rnd s)) =
        max (- 39) (min 39
          (if keys s ''d'' then X (planePosition s) - 0.3
           else if keys s ''a'' then X (planePosition s) + 0.3
           else X (planePosition s))) \<and>
      \<bar>X (planePosition (update rnd s))\<bar> \<le> 39 \<and>
      X (plane_position (update rnd s)) = X (planePosition (update rnd s))"
    using update_within [of s rnd] update_X [of s rnd] by (simp add: phase_Playing)
  show "X (planePosition (checkCollisions s)) = max (- 39) (min 39 (X (planePosition s)))"
    by (simp add: checkCollisions_def checkGround_def constrainBarriers_X_eq)
  show "\<bar>X (planePosition (checkCollisions s))\<bar> \<le> 39"
    using constrainBarriers_X [of "checkPillars s"]
    by (simp add: checkCollisions_def checkGround_def abs_le_iff)
  show "phase_of (constrainBarriers s) = phase_of s"
    by (rule constrainBarriers_phase)
  show "within_barriers s \<longrightarrow> within_barriers (run evs s)"
    using run_invariant [of within_barriers s evs] step_within by blast
  have "within_barriers (init (initial btn title))"
    by (simp add: within_barriers_def init_def initial_def loadTowerModel_def)
  then show "within_barriers (run evs (init (initial btn title)))"
    by (rule run_invariant) (rule step_within)
  show "BARRIER_X_LIMIT - PLANE_HALF_WIDTH = 39"
    by (simp add: BARRIER_X_LIMIT_def PLANE_HALF_WIDTH_def)
qed

theorem barrier_clamp_keeps_plane_inside_witness:
  "phase_of wall_state = Playing \<and> within_barriers wall_state \<and>
   X (planePosition wall_state) = 39 \<and> keys wall_state ''a'' \<and> \<not> keys wall_state ''d'' \<and>
   X (planePosition (update (always 0) wall_state)) = 39 \<and>
   X (plane_position (update (always 0) wall_state)) = 39 \<and>
   \<bar>X (planePosition (update (always 0) wall_state))\<bar> \<le> 39 \<and>
   within_barriers (run [Tick (always 0), Tick (always 0), Tick (always 0)] wall_state)"
proof -
  have h: "phase_of wall_state = Playing" "within_barriers wall_state"
    by (simp_all add: wall_state_def startGame_def initial_def phase_of_def within_barriers_def)
  have k: "keys wall_state ''a''" "\<not> keys wall_state ''d''" "X (planePosition wall_state) = 39"
    by (simp_all add: wall_state_def startGame_def initial_def holding_def)
  from barrier_clamp_keeps_plane_inside
         [of wall_state "always 0" "[Tick (always 0), Tick (always 0), Tick (always 0)]" "[]" "[]"]
       h k
  show ?thesis by simp
qed


section \<open>Throttle\<close>





subsection \<open>Rounding to binary64\<close>






lemma handleSpeed_double_keys [simp]: "keys (handleSpeed_double s) = keys s"
  by (simp add: handleSpeed_double_def Let_def)

lemma funpow_handleSpeed_double_keys [simp]: "keys ((handleSpeed_double ^^ n) s) = keys s"
  by (induction n) simp_all







subsection \<open>Claim C8\<close>





section \<open>Completing a level\<close>








lemma beforeRing_game_js_fields [simp]:
  "currentLevel (beforeRing_game_js rnd s) = currentLevel s"
  "LEVELS (beforeRing_game_js rnd s) = LEVELS s"
  "pendingTimers (beforeRing_game_js rnd s) = pendingTimers s"
  by (simp_all add: beforeRing_game_js_def)






end
